theory Spec2Isabelle
  imports Main "HOL-Library.Sublist"
begin

section \<open>JavaScript values as the handlers see them\<close>

text \<open>
  A request body is what \<^verbatim>\<open>express.json()\<close> parsed: a JSON object, given by the list
  of its own properties (each name once), whose fields hold JSON values. A field that
  is absent reads as \<^verbatim>\<open>undefined\<close>. Reading a property that an object literal does
  not own reaches \<^verbatim>\<open>Object.prototype\<close>, whose members are built-in functions
  (\<open>JFun\<close> with the function's name). Strings are the UTF-8 bytes of the JavaScript
  string.

  A number is given by the two things the handlers observe of it: whether it is one
  of the falsy numbers (\<^verbatim>\<open>0\<close>, \<^verbatim>\<open>-0\<close>, \<^verbatim>\<open>NaN\<close>), and the text that
  \<^verbatim>\<open>Number.prototype.toString\<close> gives for it, which is what a template literal and a
  property key take: \<^verbatim>\<open>42\<close>, \<^verbatim>\<open>-1.5\<close>, \<^verbatim>\<open>1e+21\<close>.
\<close>

datatype number = Number (zero_or_NaN: bool) (decimal: string)

datatype jsval =
    JUndefined
  | JNull
  | JBool bool
  | JNum number
  | JStr string
  | JArr "jsval list"
  | JObj "(string \<times> jsval) list"
  | JFun string

type_synonym jsobject = "(string \<times> jsval) list"

datatype exn = TypeError string | GatewayError string

fun message :: "exn \<Rightarrow> string" where
  "message (TypeError m) = m"
| "message (GatewayError m) = m"

text \<open>\<^verbatim>\<open>!v\<close> is \<open>\<not> truthy v\<close>.\<close>

fun truthy :: "jsval \<Rightarrow> bool" where
  "truthy JUndefined = False"
| "truthy JNull = False"
| "truthy (JBool b) = b"
| "truthy (JNum n) = (\<not> zero_or_NaN n)"
| "truthy (JStr s) = (s \<noteq> [])"
| "truthy (JArr xs) = True"
| "truthy (JObj kvs) = True"
| "truthy (JFun f) = True"

fun typeof :: "jsval \<Rightarrow> string" where
  "typeof JUndefined = ''undefined''"
| "typeof JNull = ''object''"
| "typeof (JBool b) = ''boolean''"
| "typeof (JNum n) = ''number''"
| "typeof (JStr s) = ''string''"
| "typeof (JArr xs) = ''object''"
| "typeof (JObj kvs) = ''object''"
| "typeof (JFun f) = ''function''"

subsection \<open>Conversion to a string (template literals, property keys)\<close>

fun join :: "string \<Rightarrow> string list \<Rightarrow> string" where
  "join sep [] = []"
| "join sep [x] = x"
| "join sep (x # y # ys) = x @ sep @ join sep (y # ys)"

text \<open>
  \<open>ToString\<close> of an object goes through its \<^verbatim>\<open>toString\<close> and \<^verbatim>\<open>valueOf\<close>
  properties. A parsed JSON object inherits both from \<^verbatim>\<open>Object.prototype\<close> and renders
  as \<^verbatim>\<open>[object Object]\<close>, unless it has an own property \<^verbatim>\<open>toString\<close>: JSON holds no
  function, so that property is not callable, \<^verbatim>\<open>valueOf\<close> (own and not callable, or
  inherited and returning the object) gives no primitive either, and the conversion
  throws a TypeError. An array joins the renderings of its elements with commas,
  \<^verbatim>\<open>null\<close> and \<^verbatim>\<open>undefined\<close> elements rendering as the empty string.
\<close>

definition cannot_convert :: exn where
  "cannot_convert = TypeError ''Cannot convert object to primitive value''"

fun ToString :: "jsval \<Rightarrow> exn + string"
  and ToString_elements :: "jsval list \<Rightarrow> exn + string list" where
  "ToString JUndefined = Inr ''undefined''"
| "ToString JNull = Inr ''null''"
| "ToString (JBool b) = Inr (if b then ''true'' else ''false'')"
| "ToString (JNum n) = Inr (decimal n)"
| "ToString (JStr s) = Inr s"
| "ToString (JArr xs) =
     (case ToString_elements xs of Inl e \<Rightarrow> Inl e | Inr ss \<Rightarrow> Inr (join '','' ss))"
| "ToString (JObj kvs) =
     (if ''toString'' \<in> set (map fst kvs) then Inl cannot_convert
      else Inr ''[object Object]'')"
| "ToString (JFun f) = Inr (''function '' @ f @ ''() { [native code] }'')"
| "ToString_elements [] = Inr []"
| "ToString_elements (x # xs) =
     (case (if x = JNull \<or> x = JUndefined then Inr [] else ToString x) of
        Inl e \<Rightarrow> Inl e
      | Inr s \<Rightarrow> (case ToString_elements xs of Inl e \<Rightarrow> Inl e | Inr ss \<Rightarrow> Inr (s # ss)))"

subsection \<open>Property access\<close>

text \<open>
  The members every object literal inherits from \<^verbatim>\<open>Object.prototype\<close>. Reading
  \<^verbatim>\<open>__proto__\<close> gives the prototype itself, an object that renders and tests like an
  empty one.
\<close>

definition Object_prototype :: jsobject where
  "Object_prototype =
     [(''constructor'', JFun ''Object''),
      (''__defineGetter__'', JFun ''__defineGetter__''),
      (''__defineSetter__'', JFun ''__defineSetter__''),
      (''hasOwnProperty'', JFun ''hasOwnProperty''),
      (''__lookupGetter__'', JFun ''__lookupGetter__''),
      (''__lookupSetter__'', JFun ''__lookupSetter__''),
      (''isPrototypeOf'', JFun ''isPrototypeOf''),
      (''propertyIsEnumerable'', JFun ''propertyIsEnumerable''),
      (''toString'', JFun ''toString''),
      (''valueOf'', JFun ''valueOf''),
      (''__proto__'', JObj []),
      (''toLocaleString'', JFun ''toLocaleString'')]"

text \<open>\<^verbatim>\<open>o.k\<close> for a name \<open>k\<close>: the own property, else the inherited one, else undefined.\<close>

definition get :: "jsobject \<Rightarrow> string \<Rightarrow> jsval" where
  "get obj k =
     (case map_of obj k of
        Some v \<Rightarrow> v
      | None \<Rightarrow> (case map_of Object_prototype k of Some v \<Rightarrow> v | None \<Rightarrow> JUndefined))"

text \<open>\<^verbatim>\<open>o[v]\<close> for a value \<open>v\<close>: the key is \<open>v\<close> converted to a string.\<close>

definition index :: "jsobject \<Rightarrow> jsval \<Rightarrow> exn + jsval" where
  "index obj v = (case ToString v of Inl e \<Rightarrow> Inl e | Inr k \<Rightarrow> Inr (get obj k))"

definition Object_keys :: "jsobject \<Rightarrow> string list" where
  "Object_keys obj = map fst obj"

text \<open>\<^verbatim>\<open>xs.includes(v)\<close> on an array of strings: only an equal string is found.\<close>

definition Array_includes :: "string list \<Rightarrow> jsval \<Rightarrow> bool" where
  "Array_includes xs v = (v \<in> set (map JStr xs))"

subsection \<open>String.prototype.trim\<close>

text \<open>
  The white space and line terminators \<^verbatim>\<open>trim\<close> removes, each as the UTF-8 bytes of
  its code point: U+0009 to U+000D, U+0020, U+00A0, U+1680, U+2000 to U+200A, U+2028,
  U+2029, U+202F, U+205F, U+3000 and U+FEFF.
\<close>

definition WhiteSpace :: "string list" where
  "WhiteSpace =
     [[CHR 0x09], [CHR 0x0A], [CHR 0x0B], [CHR 0x0C], [CHR 0x0D], [CHR 0x20],
      [CHR 0xC2, CHR 0xA0], [CHR 0xE1, CHR 0x9A, CHR 0x80],
      [CHR 0xE2, CHR 0x80, CHR 0x80], [CHR 0xE2, CHR 0x80, CHR 0x81],
      [CHR 0xE2, CHR 0x80, CHR 0x82], [CHR 0xE2, CHR 0x80, CHR 0x83],
      [CHR 0xE2, CHR 0x80, CHR 0x84], [CHR 0xE2, CHR 0x80, CHR 0x85],
      [CHR 0xE2, CHR 0x80, CHR 0x86], [CHR 0xE2, CHR 0x80, CHR 0x87],
      [CHR 0xE2, CHR 0x80, CHR 0x88], [CHR 0xE2, CHR 0x80, CHR 0x89],
      [CHR 0xE2, CHR 0x80, CHR 0x8A], [CHR 0xE2, CHR 0x80, CHR 0xA8],
      [CHR 0xE2, CHR 0x80, CHR 0xA9], [CHR 0xE2, CHR 0x80, CHR 0xAF],
      [CHR 0xE2, CHR 0x81, CHR 0x9F], [CHR 0xE3, CHR 0x80, CHR 0x80],
      [CHR 0xEF, CHR 0xBB, CHR 0xBF]]"

text \<open>
  \<open>strip ws n s\<close> is \<open>s\<close> without the \<open>n\<close> bytes left of a white space already
  recognised at its head, and without the white space that follows them.
\<close>

fun strip :: "string list \<Rightarrow> nat \<Rightarrow> string \<Rightarrow> string" where
  "strip ws n [] = []"
| "strip ws (Suc n) (c # cs) = strip ws n cs"
| "strip ws 0 (c # cs) =
     (case find (\<lambda>w. w \<noteq> [] \<and> prefix w (c # cs)) ws of
        None \<Rightarrow> c # cs
      | Some w \<Rightarrow> strip ws (length w - 1) cs)"

definition trimStart :: "string \<Rightarrow> string" where
  "trimStart s = strip WhiteSpace 0 s"

definition trimEnd :: "string \<Rightarrow> string" where
  "trimEnd s = rev (strip (map rev WhiteSpace) 0 (rev s))"

definition trim :: "string \<Rightarrow> string" where
  "trim s = trimEnd (trimStart s)"

section \<open>The HTTP surface and the completion gateway\<close>

text \<open>
  \<^verbatim>\<open>res.status(n).json(o)\<close> is \<open>Response n o\<close>; \<^verbatim>\<open>res.json(o)\<close> answers with status 200.
  A handler returns its response together with the prompts it passed to
  \<^verbatim>\<open>model.generateContent\<close>, in order.
\<close>

datatype response = Response (status: nat) (body: jsval)

text \<open>
  What a handler reads of a completed generation: \<^verbatim>\<open>result.response.text()\<close> and
  \<^verbatim>\<open>result.response.promptFeedback?.inputTokenCount\<close> (undefined when the provider
  sends none). A call that rejects, or whose text cannot be read, is \<open>Inl\<close> of the error.
\<close>

record completion =
  response_text :: string
  inputTokenCount :: jsval

type_synonym model = "jsval \<Rightarrow> exn + completion"

type_synonym outcome = "response \<times> jsval list"

text \<open>\<^verbatim>\<open>a || b\<close>, and the default of a destructured field (\<^verbatim>\<open>{ f = d }\<close>).\<close>

definition or_else :: "jsval \<Rightarrow> jsval \<Rightarrow> jsval" where
  "or_else a b = (if truthy a then a else b)"

definition default_to :: "jsval \<Rightarrow> jsval \<Rightarrow> jsval" where
  "default_to d v = (if v = JUndefined then d else v)"

section \<open>The static tables\<close>

definition grades :: jsobject where
  "grades =
     [(''pp1'', JStr ''Pre-Primary 1''),
      (''pp2'', JStr ''Pre-Primary 2''),
      (''grade1'', JStr ''Grade 1''),
      (''grade2'', JStr ''Grade 2''),
      (''grade3'', JStr ''Grade 3''),
      (''grade4'', JStr ''Grade 4''),
      (''grade5'', JStr ''Grade 5''),
      (''grade6'', JStr ''Grade 6''),
      (''grade7'', JStr ''Grade 7''),
      (''grade8'', JStr ''Grade 8''),
      (''grade9'', JStr ''Grade 9''),
      (''grade10'', JStr ''Grade 10''),
      (''grade11'', JStr ''Grade 11''),
      (''grade12'', JStr ''Grade 12'')]"

definition strings :: "string list \<Rightarrow> jsval" where
  "strings xs = JArr (map JStr xs)"

definition cbcCurriculum :: jsobject where
  "cbcCurriculum =
     [(''prePrimary'', JObj
        [(''label'', JStr ''Pre-Primary (PP1-PP2)''),
         (''subjects'', strings
            [''Language Activities'', ''Mathematical Activities'',
             ''Environmental Activities'', ''Psychomotor & Creative Activities'',
             ''Religious Education''])]),
      (''lowerPrimary'', JObj
        [(''label'', JStr ''Lower Primary (Grades 1-3)''),
         (''subjects'', strings
            [''English'', ''Kiswahili'', ''Mathematics'', ''Environmental Activities'',
             ''Hygiene & Nutrition'', ''Movement & Creative Activities'',
             ''Religious Education''])]),
      (''upperPrimary'', JObj
        [(''label'', JStr ''Upper Primary (Grades 4-6)''),
         (''subjects'', strings
            [''English'', ''Kiswahili'', ''Home Science'', ''Agriculture'',
             ''Science & Technology'', ''Mathematics'', ''Social Studies'',
             ''Creative Arts'', ''Religious Education'', ''Physical & Health Education''])]),
      (''juniorSecondary'', JObj
        [(''label'', JStr ''Junior Secondary (Grades 7-9)''),
         (''subjects'', strings
            [''English'', ''Kiswahili'', ''Mathematics'', ''Integrated Science'',
             ''Social Studies'', ''Pre-Technical & Pre-Career Education'',
             ''Business Studies'', ''Agriculture'', ''Religious Education'',
             ''Sports & Physical Education'', ''Life Skills'', ''Health Education''])]),
      (''seniorSecondary'', JObj
        [(''label'', JStr ''Senior Secondary (Grades 10-12)''),
         (''pathways'', JObj
            [(''stem'', strings
                [''English'', ''Mathematics'', ''Physics'', ''Chemistry'', ''Biology'',
                 ''Computer Science'']),
             (''socialSciences'', strings
                [''English'', ''Mathematics'', ''History'', ''Geography'', ''Economics'',
                 ''Government'']),
             (''performingArts'', strings
                [''English'', ''Mathematics'', ''Music'', ''Visual Arts'',
                 ''Performing Arts'', ''Drama''])])])]"

definition contentTypes :: "string list" where
  "contentTypes = [''lesson-summary'', ''quiz'', ''activity'', ''assessment'', ''explanation'']"

definition languages :: "string list" where
  "languages = [''English'', ''Kiswahili'']"

section \<open>The request validator\<close>

definition bad_request :: "string \<Rightarrow> response" where
  "bad_request msg = Response 400 (JObj [(''success'', JBool False), (''error'', JStr msg)])"

definition InvalidTopic :: response where
  "InvalidTopic = bad_request ''Topic is required and must be a non-empty string''"

definition InvalidGrade :: response where
  "InvalidGrade = bad_request (''Grade must be one of: '' @ join '', '' (Object_keys grades))"

definition InvalidSubject :: response where
  "InvalidSubject = bad_request ''Subject must be a string''"

definition InvalidContentType :: response where
  "InvalidContentType = bad_request
     ''Content type must be: lesson-summary, quiz, activity, assessment, or explanation''"

definition InvalidLanguage :: response where
  "InvalidLanguage = bad_request ''Language must be: English or Kiswahili''"

text \<open>
  \<open>Some r\<close>: the middleware answered with \<open>r\<close> and the handler does not run;
  \<open>None\<close>: it called \<^verbatim>\<open>next()\<close>. The third test of the topic runs only on a string,
  the \<^verbatim>\<open>typeof\<close> test before it having cut every other value off.
\<close>

definition validateGenerateRequest :: "jsobject \<Rightarrow> response option" where
  "validateGenerateRequest req_body =
     (let topic = get req_body ''topic'';
          grade = get req_body ''grade'';
          subject = get req_body ''subject'';
          contentType = get req_body ''contentType'';
          language = get req_body ''language''
      in
        if \<not> truthy topic \<or> typeof topic \<noteq> ''string'' \<or>
           (case topic of JStr s \<Rightarrow> length (trim s) = 0 | _ \<Rightarrow> False)
        then Some InvalidTopic
        else if \<not> truthy grade \<or> \<not> Array_includes (Object_keys grades) grade
        then Some InvalidGrade
        else if truthy subject \<and> typeof subject \<noteq> ''string''
        then Some InvalidSubject
        else if \<not> truthy contentType \<or> \<not> Array_includes contentTypes contentType
        then Some InvalidContentType
        else if \<not> truthy language \<or> \<not> Array_includes languages language
        then Some InvalidLanguage
        else None)"

section \<open>The prompt composer\<close>

definition languageContext_in :: "jsval \<Rightarrow> string" where
  "languageContext_in language =
     (if language = JStr ''Kiswahili'' then ''in Kiswahili'' else ''in English'')"

definition cbcContext :: "jsval \<Rightarrow> jsval \<Rightarrow> exn + string" where
  "cbcContext gradeLabel subject =
     (case ToString gradeLabel of
        Inl e \<Rightarrow> Inl e
      | Inr label \<Rightarrow>
          (case (if truthy subject
                 then (case ToString subject of Inl e \<Rightarrow> Inl e | Inr s \<Rightarrow> Inr ('' in '' @ s))
                 else Inr '''') of
             Inl e \<Rightarrow> Inl e
           | Inr clause \<Rightarrow> Inr (''This is for the Kenyan CBC curriculum at '' @ label @ clause)))"

text \<open>
  The object literal of the five templates, for the topic already rendered, the
  language directive and the context clause.
\<close>

definition contentPrompts :: "string \<Rightarrow> string \<Rightarrow> string \<Rightarrow> jsobject" where
  \<open>contentPrompts topic languageContext ctx =
     [(''lesson-summary'', JStr
         (''Create a concise lesson summary for "'' @ topic @ ''" '' @ languageContext @
          ''. '' @ ctx @ ''. Focus on key competencies students should develop. Include 2-3 main learning outcomes and key concepts. Keep it teacher-friendly.'')),
      (''quiz'', JStr
         (''Generate 5 multiple-choice questions for "'' @ topic @ ''" '' @ languageContext @
          ''. '' @ ctx @ ''. Format: Q1) Question? A) Option B) Option C) Option D) Correct Answer: X. Ensure questions test competency-based learning, not just rote memorization.'')),
      (''activity'', JStr
         (''Design a practical, real-life activity for students to learn "'' @ topic @ ''" '' @
          languageContext @
          ''. '' @ ctx @ ''. Include: Objective, Materials needed, Step-by-step instructions, Expected outcomes, and Connection to real-world application. Make it engaging and hands-on.'')),
      (''assessment'', JStr
         (''Create a competency-based assessment for "'' @ topic @ ''" '' @ languageContext @
          ''. '' @ ctx @ ''. Include rubric, success criteria, and how to measure student competency development.'')),
      (''explanation'', JStr
         (''Explain "'' @ topic @ ''" '' @ languageContext @
          '' in simple, relatable terms. '' @ ctx @ ''. Use local Kenyan examples, case studies, or real-life scenarios to make content relevant and engaging to students.''))]\<close>

text \<open>
  The result is the value of \<^verbatim>\<open>contentPrompts[contentType]\<close>: a string for the five
  content types, undefined for a key the literal does not have. \<open>Inl\<close> is an exception
  thrown while a value is rendered.
\<close>

definition generateCBCPrompt ::
  "jsval \<Rightarrow> jsval \<Rightarrow> jsval \<Rightarrow> jsval \<Rightarrow> jsval \<Rightarrow> exn + jsval" where
  "generateCBCPrompt topic grade subject contentType language =
     (case index grades grade of
        Inl e \<Rightarrow> Inl e
      | Inr gradeLabel \<Rightarrow>
          (case cbcContext gradeLabel subject of
             Inl e \<Rightarrow> Inl e
           | Inr ctx \<Rightarrow>
               (case ToString topic of
                  Inl e \<Rightarrow> Inl e
                | Inr t \<Rightarrow> index (contentPrompts t (languageContext_in language) ctx) contentType)))"

section \<open>The handlers\<close>

definition failure :: "string \<Rightarrow> exn \<Rightarrow> response" where
  "failure msg e =
     Response 500
       (JObj [(''success'', JBool False), (''error'', JStr msg), (''details'', JStr (message e))])"

text \<open>
  \<^verbatim>\<open>POST /api/generate\<close>, after the validator. \<open>now\<close> is the text of
  \<^verbatim>\<open>new Date().toISOString()\<close>.
\<close>

definition generate_handler :: "model \<Rightarrow> string \<Rightarrow> jsobject \<Rightarrow> outcome" where
  "generate_handler generateContent now req_body =
     (let topic = get req_body ''topic'';
          grade = get req_body ''grade'';
          subject = get req_body ''subject'';
          contentType = default_to (JStr ''lesson-summary'') (get req_body ''contentType'');
          language = default_to (JStr ''English'') (get req_body ''language'')
      in
        case generateCBCPrompt topic grade subject contentType language of
          Inl e \<Rightarrow> (failure ''Failed to generate content'' e, [])
        | Inr prompt \<Rightarrow>
            (case generateContent prompt of
               Inl e \<Rightarrow> (failure ''Failed to generate content'' e, [prompt])
             | Inr result \<Rightarrow>
                 (case index grades grade of
                    Inl e \<Rightarrow> (failure ''Failed to generate content'' e, [prompt])
                  | Inr gradeLabel \<Rightarrow>
                      (Response 200
                         (JObj
                            [(''success'', JBool True),
                             (''data'', JObj
                                [(''topic'', topic),
                                 (''grade'', grade),
                                 (''gradeLabel'', gradeLabel),
                                 (''subject'', or_else subject (JStr ''General'')),
                                 (''contentType'', contentType),
                                 (''language'', language),
                                 (''content'', JStr (response_text result)),
                                 (''generatedAt'', JStr now),
                                 (''cbcAligned'', JBool True)]),
                             (''metadata'', JObj
                                [(''model'', JStr ''gemini-pro''),
                                 (''curriculum'', JStr ''Kenyan CBC''),
                                 (''inputTokens'', or_else (inputTokenCount result) (JNum (Number True ''0'')))])]),
                       [prompt]))))"

text \<open>The route: the validator as middleware, then the handler.\<close>

definition post_generate :: "model \<Rightarrow> string \<Rightarrow> jsobject \<Rightarrow> outcome" where
  "post_generate generateContent now req_body =
     (case validateGenerateRequest req_body of
        Some r \<Rightarrow> (r, [])
      | None \<Rightarrow> generate_handler generateContent now req_body)"

text \<open>\<^verbatim>\<open>POST /api/teacher-materials\<close>.\<close>

definition teacher_materials_handler :: "model \<Rightarrow> jsobject \<Rightarrow> outcome" where
  \<open>teacher_materials_handler generateContent req_body =
     (let topic = get req_body ''topic'';
          grade = get req_body ''grade'';
          subject = get req_body ''subject'';
          language = default_to (JStr ''English'') (get req_body ''language'')
      in
        if \<not> truthy topic \<or> \<not> truthy grade
        then (bad_request ''Topic and grade are required'', [])
        else
          (case index grades grade of
             Inl e \<Rightarrow> (failure ''Failed to generate teacher materials'' e, [])
           | Inr gradeLabel \<Rightarrow>
               (case ToString topic of
                  Inl e \<Rightarrow> (failure ''Failed to generate teacher materials'' e, [])
                | Inr t \<Rightarrow>
                    (case ToString gradeLabel of
                       Inl e \<Rightarrow> (failure ''Failed to generate teacher materials'' e, [])
                     | Inr label \<Rightarrow>
                         (let prompt = JStr
                            (''Create comprehensive teacher materials for "'' @ t @ ''" at '' @
                             label @ '' '' @ languageContext_in language @
                             ''. Include: 1) Learning objectives aligned with CBC competencies, 2) Lesson outline (30-45 min), 3) Differentiation strategies, 4) Common misconceptions and how to address them, 5) Home support activities. Make it practical and classroom-ready.'')
                          in
                            case generateContent prompt of
                              Inl e \<Rightarrow>
                                (failure ''Failed to generate teacher materials'' e, [prompt])
                            | Inr result \<Rightarrow>
                                (Response 200
                                   (JObj
                                      [(''success'', JBool True),
                                       (''data'', JObj
                                          [(''topic'', topic),
                                           (''grade'', grade),
                                           (''gradeLabel'', gradeLabel),
                                           (''subject'', or_else subject (JStr ''General'')),
                                           (''language'', language),
                                           (''teacherMaterials'',
                                              JStr (response_text result))])]),
                                 [prompt]))))))\<close>

text \<open>\<^verbatim>\<open>POST /api/clarify\<close>.\<close>

definition clarify_handler :: "model \<Rightarrow> jsobject \<Rightarrow> outcome" where
  \<open>clarify_handler generateContent req_body =
     (let previousContent = get req_body ''previousContent'';
          question = get req_body ''question'';
          grade = get req_body ''grade'';
          language = default_to (JStr ''English'') (get req_body ''language'')
      in
        if \<not> truthy previousContent \<or> \<not> truthy question \<or> \<not> truthy grade
        then (bad_request ''previousContent, question, and grade are required'', [])
        else
          (case index grades grade of
             Inl e \<Rightarrow> (failure ''Failed to generate clarification'' e, [])
           | Inr gradeLabel \<Rightarrow>
               (case ToString gradeLabel of
                  Inl e \<Rightarrow> (failure ''Failed to generate clarification'' e, [])
                | Inr label \<Rightarrow>
                    (case ToString previousContent of
                       Inl e \<Rightarrow> (failure ''Failed to generate clarification'' e, [])
                     | Inr content \<Rightarrow>
                         (case ToString question of
                            Inl e \<Rightarrow> (failure ''Failed to generate clarification'' e, [])
                          | Inr q \<Rightarrow>
                              (let languageContext =
                                     (if language = JStr ''Kiswahili'' then ''Kiswahili''
                                      else ''English'');
                                   prompt = JStr
                                     (''Based on this CBC content for '' @ label @ '': "'' @
                                      content @ ''", answer this follow-up question: "'' @ q @
                                      ''" in '' @ languageContext @
                                      ''. Be clear, age-appropriate, and competency-focused.'')
                               in
                                 case generateContent prompt of
                                   Inl e \<Rightarrow>
                                     (failure ''Failed to generate clarification'' e, [prompt])
                                 | Inr result \<Rightarrow>
                                     (Response 200
                                        (JObj
                                           [(''success'', JBool True),
                                            (''data'', JObj
                                               [(''question'', question),
                                                (''clarification'',
                                                   JStr (response_text result)),
                                                (''grade'', grade)])]),
                                      [prompt])))))))\<close>

text \<open>\<^verbatim>\<open>POST /api/learning-path\<close>.\<close>

definition learning_path_handler :: "model \<Rightarrow> jsobject \<Rightarrow> outcome" where
  \<open>learning_path_handler generateContent req_body =
     (let topic = get req_body ''topic'';
          startGrade = get req_body ''startGrade'';
          endGrade = get req_body ''endGrade'';
          subject = get req_body ''subject'';
          language = default_to (JStr ''English'') (get req_body ''language'')
      in
        if \<not> truthy topic \<or> \<not> truthy startGrade \<or> \<not> truthy endGrade
        then (bad_request ''Topic, startGrade, and endGrade are required'', [])
        else
          (case index grades startGrade of
             Inl e \<Rightarrow> (failure ''Failed to generate learning path'' e, [])
           | Inr startLabel \<Rightarrow>
               (case index grades endGrade of
                  Inl e \<Rightarrow> (failure ''Failed to generate learning path'' e, [])
                | Inr endLabel \<Rightarrow>
                    (case ToString topic of
                       Inl e \<Rightarrow> (failure ''Failed to generate learning path'' e, [])
                     | Inr t \<Rightarrow>
                         (case ToString startLabel of
                            Inl e \<Rightarrow> (failure ''Failed to generate learning path'' e, [])
                          | Inr start \<Rightarrow>
                              (case ToString endLabel of
                                 Inl e \<Rightarrow> (failure ''Failed to generate learning path'' e, [])
                               | Inr end_label \<Rightarrow>
                                   (let prompt = JStr
                                      (''Create a learning progression for "'' @ t @
                                       ''" from '' @ start @ '' to '' @ end_label @ '' '' @
                                       languageContext_in language @
                                       ''. For each level, outline: Competency to develop, Key concepts, Assessment criteria, and Connection to next level. Align with Kenyan CBC principles.'')
                                    in
                                      case generateContent prompt of
                                        Inl e \<Rightarrow>
                                          (failure ''Failed to generate learning path'' e,
                                           [prompt])
                                      | Inr result \<Rightarrow>
                                          (Response 200
                                             (JObj
                                                [(''success'', JBool True),
                                                 (''data'', JObj
                                                    [(''topic'', topic),
                                                     (''startGrade'', startLabel),
                                                     (''endGrade'', endLabel),
                                                     (''subject'',
                                                        or_else subject
                                                          (JStr ''Cross-curricular'')),
                                                     (''language'', language),
                                                     (''learningPath'',
                                                        JStr (response_text result))])]),
                                           [prompt]))))))))\<close>

text \<open>\<^verbatim>\<open>GET /api/metadata\<close> and \<^verbatim>\<open>GET /api/health\<close>.\<close>

definition metadata_handler :: response where
  "metadata_handler =
     Response 200
       (JObj
          [(''success'', JBool True),
           (''data'', JObj
              [(''curriculum'', JStr ''Kenyan Competency-Based Curriculum (CBC)''),
               (''supportedGrades'', strings (Object_keys grades)),
               (''gradeLabels'', JObj grades),
               (''cbcLevels'', JObj
                  [(''prePrimary'', get cbcCurriculum ''prePrimary''),
                   (''lowerPrimary'', get cbcCurriculum ''lowerPrimary''),
                   (''upperPrimary'', get cbcCurriculum ''upperPrimary''),
                   (''juniorSecondary'', get cbcCurriculum ''juniorSecondary''),
                   (''seniorSecondary'', get cbcCurriculum ''seniorSecondary'')]),
               (''supportedContentTypes'', strings
                  [''lesson-summary'', ''quiz'', ''activity'', ''assessment'', ''explanation'']),
               (''supportedLanguages'', strings [''English'', ''Kiswahili'']),
               (''features'', strings
                  [''CBC-aligned lesson summaries'', ''Multiple-choice quizzes'',
                   ''Real-life activities'', ''Teacher support materials'',
                   ''Learning path planning'', ''Competency-based assessments''])])])"

definition health_handler :: response where
  "health_handler =
     Response 200 (JObj [(''success'', JBool True), (''message'', JStr ''Server is running'')])"

section \<open>The single-purpose variant (server.js)\<close>

text \<open>
  \<^verbatim>\<open>v.trim()\<close>: only a string has the method. On any other value the property read
  gives undefined (or, for a parsed object with an own \<^verbatim>\<open>trim\<close>, a value that is no
  function) and the call throws; on \<^verbatim>\<open>undefined\<close> and \<^verbatim>\<open>null\<close> the read itself throws.
\<close>

definition call_trim :: "jsval \<Rightarrow> exn + string" where
  "call_trim v =
     (case v of
        JStr s \<Rightarrow> Inr (trim s)
      | JUndefined \<Rightarrow> Inl (TypeError ''Cannot read properties of undefined (reading 'trim')'')
      | JNull \<Rightarrow> Inl (TypeError ''Cannot read properties of null (reading 'trim')'')
      | _ \<Rightarrow> Inl (TypeError ''topic.trim is not a function''))"

definition gemini_prompt :: "string \<Rightarrow> string" where
  \<open>gemini_prompt topic =
     ''\<newline>'' @
     ''You are an excellent Kenyan CBC Grade 6 teacher who communicates strictly in clear English (no Swahili or code-switching).\<newline>'' @
     ''\<newline>'' @
     ''Explain the topic "'' @ topic @ ''" simply and provide the following:\<newline>'' @
     ''\<newline>'' @
     ''1. A 3'' @ [CHR 0xE2, CHR 0x80, CHR 0x93] @ ''4 sentence English summary written in a warm, friendly tone suitable for Grade 6 learners.  \<newline>'' @
     ''2. Three multiple-choice quiz questions (each with four options and one clearly marked correct answer).  \<newline>'' @
     ''3. One practical, real-life activity that helps learners understand the topic better.\<newline>'' @
     ''\<newline>'' @
     ''Respond in **this exact structured format** (use clear labels):\<newline>'' @
     ''\<newline>'' @
     ''SUMMARY:\<newline>'' @
     ''...\<newline>'' @
     ''\<newline>'' @
     ''QUIZ:\<newline>'' @
     ''1)\<newline>'' @
     ''2)\<newline>'' @
     ''3)\<newline>'' @
     ''\<newline>'' @
     ''ACTIVITY:\<newline>'' @
     ''...\<newline>'' @
     ''\<newline>'' @
     ''Do not include any extra introductions, translations, or closing remarks '' @
     [CHR 0xE2, CHR 0x80, CHR 0x94] @
     '' just the sections above in English.\<newline>''\<close>

definition gemini_error :: "string \<Rightarrow> jsval" where
  "gemini_error msg = JObj [(''error'', JStr msg)]"

text \<open>\<^verbatim>\<open>POST /api/gemini\<close>. Whatever is thrown inside the handler is caught and answered with 500.\<close>

definition gemini_handler :: "model \<Rightarrow> jsobject \<Rightarrow> outcome" where
  "gemini_handler generateContent req_body =
     (let topic = get req_body ''topic'' in
        if \<not> truthy topic
        then (Response 400 (gemini_error ''Please provide a topic.''), [])
        else
          (case call_trim topic of
             Inl e \<Rightarrow> (Response 500 (gemini_error ''Failed to generate content''), [])
           | Inr trimmed \<Rightarrow>
               if trimmed = ''''
               then (Response 400 (gemini_error ''Please provide a topic.''), [])
               else
                 (case ToString topic of
                    Inl e \<Rightarrow> (Response 500 (gemini_error ''Failed to generate content''), [])
                  | Inr t \<Rightarrow>
                      (let prompt = JStr (gemini_prompt t) in
                         case generateContent prompt of
                           Inl e \<Rightarrow>
                             (Response 500 (gemini_error ''Failed to generate content''), [prompt])
                         | Inr result \<Rightarrow>
                             (Response 200 (JObj [(''output'', JStr (response_text result))]),
                              [prompt])))))"

definition root_handler :: response where
  "root_handler =
     Response 200 (JObj [(''message'', JStr ''CBC Smart Study Assistant Backend is running'')])"

section \<open>Reading a response\<close>

text \<open>The property \<open>k\<close> of a response body, and the elements of an array in it.\<close>

definition field :: "jsval \<Rightarrow> string \<Rightarrow> jsval" where
  "field v k = (case v of JObj kvs \<Rightarrow> get kvs k | _ \<Rightarrow> JUndefined)"

definition elements :: "jsval \<Rightarrow> jsval list" where
  "elements v = (case v of JArr xs \<Rightarrow> xs | _ \<Rightarrow> [])"

section \<open>Basic facts\<close>

lemma typeof_string: "typeof v = ''string'' \<longleftrightarrow> (\<exists>s. v = JStr s)"
  by (cases v) auto

lemma trim_Nil: "trim [] = []"
  by (simp add: trim_def trimStart_def trimEnd_def)

lemma Array_includes_iff: "Array_includes xs v \<longleftrightarrow> (\<exists>s \<in> set xs. v = JStr s)"
  by (auto simp: Array_includes_def)

lemma grade_codes:
  "Object_keys grades =
     [''pp1'', ''pp2'', ''grade1'', ''grade2'', ''grade3'', ''grade4'', ''grade5'', ''grade6'',
      ''grade7'', ''grade8'', ''grade9'', ''grade10'', ''grade11'', ''grade12'']"
  by (simp add: Object_keys_def grades_def)

lemma InvalidGrade_message:
  "InvalidGrade = bad_request
     ''Grade must be one of: pp1, pp2, grade1, grade2, grade3, grade4, grade5, grade6, grade7, grade8, grade9, grade10, grade11, grade12''"
  by (simp add: InvalidGrade_def grade_codes)

section \<open>The validator rejects a missing or blank topic\<close>

text \<open>
  Claim C2. When the topic of a request is absent, is not a string, or is a string
  that trimming leaves empty, the validator answers with the InvalidTopic failure,
  whose status is 400, and the route passes no prompt to the completion gateway.
\<close>

theorem invalid_topic_rejected:
  assumes "get req_body ''topic'' = JUndefined \<or>
           typeof (get req_body ''topic'') \<noteq> ''string'' \<or>
           (\<exists>s. get req_body ''topic'' = JStr s \<and> trim s = [])"
  shows "validateGenerateRequest req_body = Some InvalidTopic \<and>
         status InvalidTopic = 400 \<and>
         post_generate generateContent now req_body = (InvalidTopic, [])"
proof -
  have "validateGenerateRequest req_body = Some InvalidTopic"
    using assms by (auto simp: validateGenerateRequest_def Let_def)
  then show ?thesis
    by (simp add: post_generate_def InvalidTopic_def bad_request_def)
qed

theorem invalid_topic_rejected_witness:
  "trim ''   '' = [] \<and>
   validateGenerateRequest [(''topic'', JStr ''   ''), (''grade'', JStr ''grade6'')]
     = Some InvalidTopic \<and>
   status InvalidTopic = 400 \<and>
   post_generate (\<lambda>p. Inr \<lparr>response_text = ''text'', inputTokenCount = JUndefined\<rparr>)
     ''2026-01-01T00:00:00.000Z'' [(''topic'', JStr ''   ''), (''grade'', JStr ''grade6'')]
     = (InvalidTopic, [])"
proof -
  have blank: "trim ''   '' = []"
    by (simp add: trim_def trimStart_def trimEnd_def WhiteSpace_def)
  have topic: "get [(''topic'', JStr ''   ''), (''grade'', JStr ''grade6'')] ''topic'' = JStr ''   ''"
    by (simp add: get_def)
  show ?thesis
    using blank topic
      invalid_topic_rejected [of "[(''topic'', JStr ''   ''), (''grade'', JStr ''grade6'')]"
        "\<lambda>p. Inr \<lparr>response_text = ''text'', inputTokenCount = JUndefined\<rparr>"
        "''2026-01-01T00:00:00.000Z''"]
    by simp
qed

section \<open>The validator rejects an unknown grade\<close>

text \<open>
  Claim C3. When the topic is valid (a string that trimming leaves non-empty) and the
  grade is not one of the known grade codes, an absent grade included, the validator
  answers with the InvalidGrade failure, no prompt reaches the gateway, and the
  message of the failure lists every grade code: pp1, pp2 and grade1 to grade12.
\<close>

theorem unknown_grade_rejected:
  assumes "get req_body ''topic'' = JStr t" and "trim t \<noteq> []"
      and "get req_body ''grade'' \<notin> JStr ` set (Object_keys grades)"
  shows "validateGenerateRequest req_body = Some InvalidGrade \<and>
         post_generate generateContent now req_body = (InvalidGrade, []) \<and>
         InvalidGrade = Response 400
           (JObj [(''success'', JBool False),
                  (''error'', JStr (''Grade must be one of: '' @ join '', '' (Object_keys grades)))]) \<and>
         join '', '' (Object_keys grades) =
           ''pp1, pp2, grade1, grade2, grade3, grade4, grade5, grade6, grade7, grade8, grade9, grade10, grade11, grade12''"
proof -
  from assms(2) have "t \<noteq> []"
    using trim_Nil by auto
  with assms have "validateGenerateRequest req_body = Some InvalidGrade"
    by (auto simp: validateGenerateRequest_def Let_def Array_includes_def)
  then show ?thesis
    by (simp add: post_generate_def InvalidGrade_def bad_request_def grade_codes)
qed

theorem unknown_grade_rejected_witness:
  "trim ''X'' \<noteq> [] \<and>
   JStr ''invalidgrade'' \<notin> JStr ` set (Object_keys grades) \<and>
   post_generate (\<lambda>p. Inr \<lparr>response_text = ''text'', inputTokenCount = JUndefined\<rparr>)
     ''2026-01-01T00:00:00.000Z''
     [(''topic'', JStr ''X''), (''grade'', JStr ''invalidgrade''), (''contentType'', JStr ''quiz''),
      (''language'', JStr ''English'')]
   = (Response 400
        (JObj [(''success'', JBool False),
               (''error'', JStr ''Grade must be one of: pp1, pp2, grade1, grade2, grade3, grade4, grade5, grade6, grade7, grade8, grade9, grade10, grade11, grade12'')]),
      [])"
proof -
  let ?body = "[(''topic'', JStr ''X''), (''grade'', JStr ''invalidgrade''),
                (''contentType'', JStr ''quiz''), (''language'', JStr ''English'')]"
  have topic: "get ?body ''topic'' = JStr ''X''"
    by (simp add: get_def)
  have filled: "trim ''X'' \<noteq> []"
    by (simp add: trim_def trimStart_def trimEnd_def WhiteSpace_def)
  have grade: "get ?body ''grade'' \<notin> JStr ` set (Object_keys grades)"
    by (simp add: get_def grade_codes)
  have code: "JStr ''invalidgrade'' \<notin> JStr ` set (Object_keys grades)"
    by (simp add: grade_codes)
  have "post_generate (\<lambda>p. Inr \<lparr>response_text = ''text'', inputTokenCount = JUndefined\<rparr>)
          ''2026-01-01T00:00:00.000Z'' ?body = (InvalidGrade, [])"
    using unknown_grade_rejected [OF topic filled grade] by blast
  then show ?thesis
    using filled code by (simp add: InvalidGrade_message bad_request_def)
qed

section \<open>The grades the metadata endpoint lists are accepted\<close>

lemma supportedGrades:
  "elements (field (field (body metadata_handler) ''data'') ''supportedGrades'') =
     map JStr (Object_keys grades)"
  by (simp add: metadata_handler_def field_def elements_def get_def strings_def)

lemma failures_distinct:
  "InvalidTopic \<noteq> InvalidGrade" "InvalidSubject \<noteq> InvalidGrade"
  "InvalidContentType \<noteq> InvalidGrade" "InvalidLanguage \<noteq> InvalidGrade"
  by (simp_all add: InvalidGrade_message InvalidTopic_def InvalidSubject_def
      InvalidContentType_def InvalidLanguage_def bad_request_def)

text \<open>
  Claim C7. Every element of the \<^verbatim>\<open>supportedGrades\<close> list in the response of
  \<^verbatim>\<open>GET /api/metadata\<close>, sent back as the grade of a generate request, passes the
  grade test of the validator: the request is never answered with InvalidGrade.
\<close>

theorem supported_grades_pass:
  assumes "g \<in> set (elements (field (field (body metadata_handler) ''data'') ''supportedGrades''))"
      and "get req_body ''grade'' = g"
  shows "truthy (get req_body ''grade'') \<and>
         Array_includes (Object_keys grades) (get req_body ''grade'') \<and>
         validateGenerateRequest req_body \<noteq> Some InvalidGrade"
proof -
  from assms(1) obtain code where g: "g = JStr code" and code: "code \<in> set (Object_keys grades)"
    by (auto simp: supportedGrades)
  from code have "code \<noteq> []"
    by (auto simp: grade_codes)
  with g code assms(2) have pass: "truthy (get req_body ''grade'')"
      "Array_includes (Object_keys grades) (get req_body ''grade'')"
    by (auto simp: Array_includes_def)
  then have "validateGenerateRequest req_body \<noteq> Some InvalidGrade"
    using failures_distinct by (auto simp: validateGenerateRequest_def Let_def)
  with pass show ?thesis
    by simp
qed

theorem supported_grades_pass_witness:
  "JStr ''grade12'' \<in> set (elements (field (field (body metadata_handler) ''data'') ''supportedGrades'')) \<and>
   validateGenerateRequest
     [(''topic'', JStr ''Fractions''), (''grade'', JStr ''grade12'')] \<noteq> Some InvalidGrade"
proof -
  let ?body = "[(''topic'', JStr ''Fractions''), (''grade'', JStr ''grade12'')]"
  have listed: "JStr ''grade12'' \<in>
      set (elements (field (field (body metadata_handler) ''data'') ''supportedGrades''))"
    by (simp add: supportedGrades grade_codes)
  have grade: "get ?body ''grade'' = JStr ''grade12''"
    by (simp add: get_def)
  show ?thesis
    using listed supported_grades_pass [OF listed grade] by blast
qed

section \<open>The generate scenario\<close>

lemma index_JStr: "index obj (JStr k) = Inr (get obj k)"
  by (simp add: index_def)

lemma get_contentPrompts:
  \<open>get (contentPrompts t l c) ''lesson-summary'' = JStr
     (''Create a concise lesson summary for "'' @ t @ ''" '' @ l @
      ''. '' @ c @ ''. Focus on key competencies students should develop. Include 2-3 main learning outcomes and key concepts. Keep it teacher-friendly.'')\<close>
  \<open>get (contentPrompts t l c) ''quiz'' = JStr
     (''Generate 5 multiple-choice questions for "'' @ t @ ''" '' @ l @
      ''. '' @ c @ ''. Format: Q1) Question? A) Option B) Option C) Option D) Correct Answer: X. Ensure questions test competency-based learning, not just rote memorization.'')\<close>
  \<open>get (contentPrompts t l c) ''activity'' = JStr
     (''Design a practical, real-life activity for students to learn "'' @ t @ ''" '' @ l @
      ''. '' @ c @ ''. Include: Objective, Materials needed, Step-by-step instructions, Expected outcomes, and Connection to real-world application. Make it engaging and hands-on.'')\<close>
  \<open>get (contentPrompts t l c) ''assessment'' = JStr
     (''Create a competency-based assessment for "'' @ t @ ''" '' @ l @
      ''. '' @ c @ ''. Include rubric, success criteria, and how to measure student competency development.'')\<close>
  \<open>get (contentPrompts t l c) ''explanation'' = JStr
     (''Explain "'' @ t @ ''" '' @ l @
      '' in simple, relatable terms. '' @ c @ ''. Use local Kenyan examples, case studies, or real-life scenarios to make content relevant and engaging to students.'')\<close>
  by (simp_all add: get_def contentPrompts_def)

lemma get_grades:
  "get grades ''pp1'' = JStr ''Pre-Primary 1''" "get grades ''pp2'' = JStr ''Pre-Primary 2''"
  "get grades ''grade1'' = JStr ''Grade 1''" "get grades ''grade2'' = JStr ''Grade 2''"
  "get grades ''grade3'' = JStr ''Grade 3''" "get grades ''grade4'' = JStr ''Grade 4''"
  "get grades ''grade5'' = JStr ''Grade 5''" "get grades ''grade6'' = JStr ''Grade 6''"
  "get grades ''grade7'' = JStr ''Grade 7''" "get grades ''grade8'' = JStr ''Grade 8''"
  "get grades ''grade9'' = JStr ''Grade 9''" "get grades ''grade10'' = JStr ''Grade 10''"
  "get grades ''grade11'' = JStr ''Grade 11''" "get grades ''grade12'' = JStr ''Grade 12''"
  by (simp_all add: get_def grades_def)

text \<open>
  Claim C6. The request with topic Photosynthesis, grade grade6, content type quiz and
  language English, served by a gateway that returns the text \<^verbatim>\<open>Q1) ...\<close>, is
  answered with status 200 and the success envelope: the request's topic, grade,
  content type and language, the label Grade 6, the subject General (none was sent),
  the gateway's text as content, and \<^verbatim>\<open>cbcAligned\<close> true. The gateway receives the
  quiz prompt once.
\<close>

theorem generate_scenario:
  \<open>post_generate (\<lambda>p. Inr \<lparr>response_text = ''Q1) ...'', inputTokenCount = tokens\<rparr>) now
     [(''topic'', JStr ''Photosynthesis''), (''grade'', JStr ''grade6''),
      (''contentType'', JStr ''quiz''), (''language'', JStr ''English'')]
   = (Response 200
        (JObj
           [(''success'', JBool True),
            (''data'', JObj
               [(''topic'', JStr ''Photosynthesis''),
                (''grade'', JStr ''grade6''),
                (''gradeLabel'', JStr ''Grade 6''),
                (''subject'', JStr ''General''),
                (''contentType'', JStr ''quiz''),
                (''language'', JStr ''English''),
                (''content'', JStr ''Q1) ...''),
                (''generatedAt'', JStr now),
                (''cbcAligned'', JBool True)]),
            (''metadata'', JObj
               [(''model'', JStr ''gemini-pro''),
                (''curriculum'', JStr ''Kenyan CBC''),
                (''inputTokens'', or_else tokens (JNum (Number True ''0'')))])]),
      [JStr ''Generate 5 multiple-choice questions for "Photosynthesis" in English. This is for the Kenyan CBC curriculum at Grade 6. Format: Q1) Question? A) Option B) Option C) Option D) Correct Answer: X. Ensure questions test competency-based learning, not just rote memorization.''])\<close>
proof -
  let ?body = "[(''topic'', JStr ''Photosynthesis''), (''grade'', JStr ''grade6''),
                (''contentType'', JStr ''quiz''), (''language'', JStr ''English'')]"
  have fields: "get ?body ''topic'' = JStr ''Photosynthesis''" "get ?body ''grade'' = JStr ''grade6''"
    "get ?body ''subject'' = JUndefined" "get ?body ''contentType'' = JStr ''quiz''"
    "get ?body ''language'' = JStr ''English''"
    by (simp_all add: get_def Object_prototype_def)
  have filled: "trim ''Photosynthesis'' \<noteq> []"
    by (simp add: trim_def trimStart_def trimEnd_def WhiteSpace_def)
  have valid: "validateGenerateRequest ?body = None"
    using filled
    by (simp add: validateGenerateRequest_def Let_def fields Array_includes_def grade_codes
        contentTypes_def languages_def)
  have prompt: \<open>generateCBCPrompt (JStr ''Photosynthesis'') (JStr ''grade6'') JUndefined
      (JStr ''quiz'') (JStr ''English'') = Inr (JStr ''Generate 5 multiple-choice questions for "Photosynthesis" in English. This is for the Kenyan CBC curriculum at Grade 6. Format: Q1) Question? A) Option B) Option C) Option D) Correct Answer: X. Ensure questions test competency-based learning, not just rote memorization.'')\<close>
    by (simp add: generateCBCPrompt_def get_grades cbcContext_def languageContext_in_def
        index_JStr get_contentPrompts)
  show ?thesis
    by (simp add: post_generate_def valid generate_handler_def Let_def fields default_to_def
        prompt index_JStr get_grades or_else_def)
qed

section \<open>What a validated request holds\<close>

lemma contentTypes_nonempty: "c \<in> set contentTypes \<Longrightarrow> c \<noteq> []"
  by (auto simp: contentTypes_def)

lemma languages_nonempty: "l \<in> set languages \<Longrightarrow> l \<noteq> []"
  by (auto simp: languages_def)

lemma grade_codes_nonempty: "g \<in> set (Object_keys grades) \<Longrightarrow> g \<noteq> []"
  by (auto simp: grade_codes)

lemma validateGenerateRequest_None_iff:
  "validateGenerateRequest req_body = None \<longleftrightarrow>
     (\<exists>t. get req_body ''topic'' = JStr t \<and> trim t \<noteq> []) \<and>
     get req_body ''grade'' \<in> JStr ` set (Object_keys grades) \<and>
     (truthy (get req_body ''subject'') \<longrightarrow> typeof (get req_body ''subject'') = ''string'') \<and>
     get req_body ''contentType'' \<in> JStr ` set contentTypes \<and>
     get req_body ''language'' \<in> JStr ` set languages"
  (is "?lhs \<longleftrightarrow> ?rhs")
proof
  assume ?lhs
  then show ?rhs
    by (auto simp: validateGenerateRequest_def Let_def Array_includes_def typeof_string
        split: if_splits)
next
  assume r: ?rhs
  then obtain t where t: "get req_body ''topic'' = JStr t" "trim t \<noteq> []"
    by blast
  then have "t \<noteq> []"
    using trim_Nil by auto
  with r t show ?lhs
    by (auto simp: validateGenerateRequest_def Let_def Array_includes_def
        dest: contentTypes_nonempty languages_nonempty grade_codes_nonempty)
qed

section \<open>The composer: one template per content type\<close>

lemma generateCBCPrompt_content:
  "generateCBCPrompt topic grade subject (JStr c) language = Inr p \<Longrightarrow>
     \<exists>t ctx. p = get (contentPrompts t (languageContext_in language) ctx) c"
  by (auto simp: generateCBCPrompt_def index_JStr split: sum.splits)

lemma prompt_heads:
  "\<exists>r. get (contentPrompts t l c) ''lesson-summary'' = JStr (''Create a conc'' @ r)"
  "\<exists>r. get (contentPrompts t l c) ''quiz'' = JStr (''Generate'' @ r)"
  "\<exists>r. get (contentPrompts t l c) ''activity'' = JStr (''Design'' @ r)"
  "\<exists>r. get (contentPrompts t l c) ''assessment'' = JStr (''Create a comp'' @ r)"
  "\<exists>r. get (contentPrompts t l c) ''explanation'' = JStr (''Explain'' @ r)"
  by (simp_all add: get_contentPrompts)

lemma contentPrompts_distinct:
  assumes "c1 \<in> set contentTypes" and "c2 \<in> set contentTypes" and "c1 \<noteq> c2"
  shows "get (contentPrompts t l ctx) c1 \<noteq> get (contentPrompts t l ctx) c2"
proof -
  obtain r1 r2 r3 r4 r5 where
    "get (contentPrompts t l ctx) ''lesson-summary'' = JStr (''Create a conc'' @ r1)"
    "get (contentPrompts t l ctx) ''quiz'' = JStr (''Generate'' @ r2)"
    "get (contentPrompts t l ctx) ''activity'' = JStr (''Design'' @ r3)"
    "get (contentPrompts t l ctx) ''assessment'' = JStr (''Create a comp'' @ r4)"
    "get (contentPrompts t l ctx) ''explanation'' = JStr (''Explain'' @ r5)"
    using prompt_heads [of t l ctx] by blast
  with assms show ?thesis
    by (simp add: contentTypes_def) (elim disjE; simp)
qed

lemma ToString_label: "\<exists>label. ToString (get grades g) = Inr label"
  by (simp add: get_def grades_def Object_prototype_def)

lemma cbcContext_total:
  assumes "\<not> truthy subject \<or> typeof subject = ''string''"
  shows "\<exists>ctx. cbcContext (get grades g) subject = Inr ctx"
proof -
  obtain label where "ToString (get grades g) = Inr label"
    using ToString_label by blast
  with assms show ?thesis
    by (auto simp: cbcContext_def typeof_string)
qed

lemma composer_total:
  assumes "\<not> truthy subject \<or> typeof subject = ''string''" and "c \<in> set contentTypes"
  shows "\<exists>p. generateCBCPrompt (JStr t) (JStr g) subject (JStr c) language = Inr (JStr p)"
proof -
  obtain ctx where ctx: "cbcContext (get grades g) subject = Inr ctx"
    using cbcContext_total [OF assms(1)] by blast
  have "\<exists>p. get (contentPrompts t (languageContext_in language) ctx) c = JStr p"
    using assms(2) by (simp add: contentTypes_def) (elim disjE; simp add: get_contentPrompts)
  then show ?thesis
    by (simp add: generateCBCPrompt_def index_JStr ctx)
qed

text \<open>
  Claim C8. The composer is a function of its five inputs: equal inputs give the equal
  result. On equal other inputs, two different content types among the five give two
  different prompts, both strings, whenever the composer returns; and it does return a
  prompt string for a string topic, a string grade and a subject that is absent or a
  string.
\<close>

theorem composer_deterministic_distinct:
  "(topic = topic' \<and> grade = grade' \<and> subject = subject' \<and> contentType = contentType' \<and>
    language = language' \<longrightarrow>
      generateCBCPrompt topic grade subject contentType language =
      generateCBCPrompt topic' grade' subject' contentType' language') \<and>
   (c \<in> set contentTypes \<and> c' \<in> set contentTypes \<and> c \<noteq> c' \<and>
    generateCBCPrompt topic grade subject (JStr c) language = Inr p \<and>
    generateCBCPrompt topic grade subject (JStr c') language = Inr p' \<longrightarrow>
      p \<noteq> p' \<and> (\<exists>s s'. p = JStr s \<and> p' = JStr s')) \<and>
   ((\<not> truthy subject \<or> typeof subject = ''string'') \<and> c \<in> set contentTypes \<longrightarrow>
      (\<exists>s. generateCBCPrompt (JStr t) (JStr g) subject (JStr c) language = Inr (JStr s)))"
proof (intro conjI impI)
  assume "topic = topic' \<and> grade = grade' \<and> subject = subject' \<and>
    contentType = contentType' \<and> language = language'"
  then show "generateCBCPrompt topic grade subject contentType language =
      generateCBCPrompt topic' grade' subject' contentType' language'"
    by simp
next
  assume a: "c \<in> set contentTypes \<and> c' \<in> set contentTypes \<and> c \<noteq> c' \<and>
    generateCBCPrompt topic grade subject (JStr c) language = Inr p \<and>
    generateCBCPrompt topic grade subject (JStr c') language = Inr p'"
  then obtain x ctx where
      p: "p = get (contentPrompts x (languageContext_in language) ctx) c"
      and p': "p' = get (contentPrompts x (languageContext_in language) ctx) c'"
    by (auto simp: generateCBCPrompt_def index_JStr split: sum.splits)
  from a p p' show "p \<noteq> p'"
    using contentPrompts_distinct by blast
  have "\<exists>s. get (contentPrompts x (languageContext_in language) ctx) c = JStr s"
    if "c \<in> set contentTypes" for c
    using that by (simp add: contentTypes_def) (elim disjE; simp add: get_contentPrompts)
  with a p p' show "\<exists>s s'. p = JStr s \<and> p' = JStr s'"
    by blast
next
  assume "(\<not> truthy subject \<or> typeof subject = ''string'') \<and> c \<in> set contentTypes"
  then show "\<exists>s. generateCBCPrompt (JStr t) (JStr g) subject (JStr c) language = Inr (JStr s)"
    using composer_total by blast
qed

theorem composer_deterministic_distinct_witness:
  \<open>generateCBCPrompt (JStr ''Photosynthesis'') (JStr ''grade6'') JUndefined (JStr ''quiz'')
     (JStr ''English'') = Inr (JStr ''Generate 5 multiple-choice questions for "Photosynthesis" in English. This is for the Kenyan CBC curriculum at Grade 6. Format: Q1) Question? A) Option B) Option C) Option D) Correct Answer: X. Ensure questions test competency-based learning, not just rote memorization.'') \<and>
   generateCBCPrompt (JStr ''Photosynthesis'') (JStr ''grade6'') JUndefined (JStr ''assessment'')
     (JStr ''English'') = Inr (JStr ''Create a competency-based assessment for "Photosynthesis" in English. This is for the Kenyan CBC curriculum at Grade 6. Include rubric, success criteria, and how to measure student competency development.'') \<and>
   generateCBCPrompt (JStr ''Photosynthesis'') (JStr ''grade6'') JUndefined (JStr ''quiz'')
     (JStr ''English'') \<noteq>
   generateCBCPrompt (JStr ''Photosynthesis'') (JStr ''grade6'') JUndefined (JStr ''assessment'')
     (JStr ''English'')\<close>
proof -
  have quiz: \<open>generateCBCPrompt (JStr ''Photosynthesis'') (JStr ''grade6'') JUndefined
      (JStr ''quiz'') (JStr ''English'') = Inr (JStr ''Generate 5 multiple-choice questions for "Photosynthesis" in English. This is for the Kenyan CBC curriculum at Grade 6. Format: Q1) Question? A) Option B) Option C) Option D) Correct Answer: X. Ensure questions test competency-based learning, not just rote memorization.'')\<close>
    by (simp add: generateCBCPrompt_def get_grades cbcContext_def languageContext_in_def
        index_JStr get_contentPrompts)
  have assessment: \<open>generateCBCPrompt (JStr ''Photosynthesis'') (JStr ''grade6'') JUndefined
      (JStr ''assessment'') (JStr ''English'') = Inr (JStr ''Create a competency-based assessment for "Photosynthesis" in English. This is for the Kenyan CBC curriculum at Grade 6. Include rubric, success criteria, and how to measure student competency development.'')\<close>
    by (simp add: generateCBCPrompt_def get_grades cbcContext_def languageContext_in_def
        index_JStr get_contentPrompts)
  have types: "''quiz'' \<in> set contentTypes \<and> ''assessment'' \<in> set contentTypes \<and>
      ''quiz'' \<noteq> ''assessment''"
    by (simp add: contentTypes_def)
  have "Inr p \<noteq> (Inr p' :: exn + jsval)" if "p \<noteq> p'" for p p'
    using that by simp
  then show ?thesis
    using composer_deterministic_distinct [where c = "''quiz''" and c' = "''assessment''"
        and topic = "JStr ''Photosynthesis''" and grade = "JStr ''grade6''"
        and subject = JUndefined and language = "JStr ''English''"] quiz assessment types
    by metis
qed

section \<open>A request without content type or language\<close>

text \<open>
  Claim C1. The request with the topic Photosynthesis, the grade grade6 and neither
  content type nor language is not accepted: the validator answers it with
  InvalidContentType, status 400, and no prompt reaches the gateway. With the content
  type quiz added and still no language, the validator answers InvalidLanguage. The
  handler behind the validator, run on the first body, would answer 200 with the
  content type \<^verbatim>\<open>lesson-summary\<close> and the language \<^verbatim>\<open>English\<close> and send the lesson
  summary prompt in English: its defaults are there, and the validator keeps every
  request that needs them away from it.
\<close>

theorem absent_contentType_rejected:
  \<open>get [(''topic'', JStr ''Photosynthesis''), (''grade'', JStr ''grade6'')] ''contentType'' = JUndefined \<and>
   get [(''topic'', JStr ''Photosynthesis''), (''grade'', JStr ''grade6'')] ''language'' = JUndefined \<and>
   validateGenerateRequest [(''topic'', JStr ''Photosynthesis''), (''grade'', JStr ''grade6'')]
     = Some InvalidContentType \<and>
   post_generate generateContent now [(''topic'', JStr ''Photosynthesis''), (''grade'', JStr ''grade6'')]
     = (InvalidContentType, []) \<and>
   InvalidContentType = Response 400
     (JObj [(''success'', JBool False),
            (''error'', JStr ''Content type must be: lesson-summary, quiz, activity, assessment, or explanation'')]) \<and>
   get [(''topic'', JStr ''Photosynthesis''), (''grade'', JStr ''grade6''),
      (''contentType'', JStr ''quiz'')] ''language'' = JUndefined \<and>
   validateGenerateRequest
     [(''topic'', JStr ''Photosynthesis''), (''grade'', JStr ''grade6''),
      (''contentType'', JStr ''quiz'')] = Some InvalidLanguage \<and>
   post_generate generateContent now
     [(''topic'', JStr ''Photosynthesis''), (''grade'', JStr ''grade6''),
      (''contentType'', JStr ''quiz'')] = (InvalidLanguage, []) \<and>
   InvalidLanguage = Response 400
     (JObj [(''success'', JBool False), (''error'', JStr ''Language must be: English or Kiswahili'')]) \<and>
   generate_handler (\<lambda>p. Inr \<lparr>response_text = ''Summary'', inputTokenCount = JUndefined\<rparr>) now
     [(''topic'', JStr ''Photosynthesis''), (''grade'', JStr ''grade6'')]
     = (Response 200
          (JObj
             [(''success'', JBool True),
              (''data'', JObj
                 [(''topic'', JStr ''Photosynthesis''),
                  (''grade'', JStr ''grade6''),
                  (''gradeLabel'', JStr ''Grade 6''),
                  (''subject'', JStr ''General''),
                  (''contentType'', JStr ''lesson-summary''),
                  (''language'', JStr ''English''),
                  (''content'', JStr ''Summary''),
                  (''generatedAt'', JStr now),
                  (''cbcAligned'', JBool True)]),
              (''metadata'', JObj
                 [(''model'', JStr ''gemini-pro''),
                  (''curriculum'', JStr ''Kenyan CBC''),
                  (''inputTokens'', JNum (Number True ''0''))])]),
        [JStr ''Create a concise lesson summary for "Photosynthesis" in English. This is for the Kenyan CBC curriculum at Grade 6. Focus on key competencies students should develop. Include 2-3 main learning outcomes and key concepts. Keep it teacher-friendly.''])\<close>
proof -
  let ?bare = "[(''topic'', JStr ''Photosynthesis''), (''grade'', JStr ''grade6'')]"
  let ?quiz = "[(''topic'', JStr ''Photosynthesis''), (''grade'', JStr ''grade6''),
      (''contentType'', JStr ''quiz'')]"
  have filled: "trim ''Photosynthesis'' \<noteq> []"
    by (simp add: trim_def trimStart_def trimEnd_def WhiteSpace_def)
  have bare: "get ?bare ''topic'' = JStr ''Photosynthesis''" "get ?bare ''grade'' = JStr ''grade6''"
    "get ?bare ''subject'' = JUndefined" "get ?bare ''contentType'' = JUndefined"
    "get ?bare ''language'' = JUndefined"
    by (simp_all add: get_def Object_prototype_def)
  have quiz: "get ?quiz ''topic'' = JStr ''Photosynthesis''" "get ?quiz ''grade'' = JStr ''grade6''"
    "get ?quiz ''subject'' = JUndefined" "get ?quiz ''contentType'' = JStr ''quiz''"
    "get ?quiz ''language'' = JUndefined"
    by (simp_all add: get_def Object_prototype_def)
  have no_type: "validateGenerateRequest ?bare = Some InvalidContentType"
    using filled
    by (simp add: validateGenerateRequest_def Let_def bare Array_includes_def grade_codes)
  have no_language: "validateGenerateRequest ?quiz = Some InvalidLanguage"
    using filled
    by (simp add: validateGenerateRequest_def Let_def quiz Array_includes_def grade_codes
        contentTypes_def)
  have routes: "post_generate generateContent now ?bare = (InvalidContentType, [])"
    "post_generate generateContent now ?quiz = (InvalidLanguage, [])"
    by (simp_all add: post_generate_def no_type no_language)
  have answers: "InvalidContentType = Response 400
      (JObj [(''success'', JBool False),
             (''error'', JStr ''Content type must be: lesson-summary, quiz, activity, assessment, or explanation'')])"
    "InvalidLanguage = Response 400
      (JObj [(''success'', JBool False), (''error'', JStr ''Language must be: English or Kiswahili'')])"
    by (simp_all add: InvalidContentType_def InvalidLanguage_def bad_request_def)
  have prompt: \<open>generateCBCPrompt (JStr ''Photosynthesis'') (JStr ''grade6'') JUndefined
      (JStr ''lesson-summary'') (JStr ''English'') = Inr (JStr ''Create a concise lesson summary for "Photosynthesis" in English. This is for the Kenyan CBC curriculum at Grade 6. Focus on key competencies students should develop. Include 2-3 main learning outcomes and key concepts. Keep it teacher-friendly.'')\<close>
    by (simp add: generateCBCPrompt_def get_grades cbcContext_def languageContext_in_def
        index_JStr get_contentPrompts)
  have handler: \<open>generate_handler (\<lambda>p. Inr \<lparr>response_text = ''Summary'', inputTokenCount = JUndefined\<rparr>) now ?bare
     = (Response 200
          (JObj
             [(''success'', JBool True),
              (''data'', JObj
                 [(''topic'', JStr ''Photosynthesis''),
                  (''grade'', JStr ''grade6''),
                  (''gradeLabel'', JStr ''Grade 6''),
                  (''subject'', JStr ''General''),
                  (''contentType'', JStr ''lesson-summary''),
                  (''language'', JStr ''English''),
                  (''content'', JStr ''Summary''),
                  (''generatedAt'', JStr now),
                  (''cbcAligned'', JBool True)]),
              (''metadata'', JObj
                 [(''model'', JStr ''gemini-pro''),
                  (''curriculum'', JStr ''Kenyan CBC''),
                  (''inputTokens'', JNum (Number True ''0''))])]),
        [JStr ''Create a concise lesson summary for "Photosynthesis" in English. This is for the Kenyan CBC curriculum at Grade 6. Focus on key competencies students should develop. Include 2-3 main learning outcomes and key concepts. Keep it teacher-friendly.''])\<close>
    by (simp add: generate_handler_def Let_def bare default_to_def prompt index_JStr get_grades
        or_else_def)
  from bare(4,5) quiz(5) no_type no_language routes answers handler show ?thesis
    by simp
qed

theorem absent_contentType_rejected_witness:
  "post_generate (\<lambda>p. Inr \<lparr>response_text = ''Summary'', inputTokenCount = JUndefined\<rparr>)
     ''2026-01-01T00:00:00.000Z'' [(''topic'', JStr ''Photosynthesis''), (''grade'', JStr ''grade6'')]
   = (Response 400
        (JObj [(''success'', JBool False),
               (''error'', JStr ''Content type must be: lesson-summary, quiz, activity, assessment, or explanation'')]),
      [])"
proof -
  let ?gateway = "\<lambda>p::jsval. Inr \<lparr>response_text = ''Summary'', inputTokenCount = JUndefined\<rparr>
    :: exn + completion"
  have "post_generate ?gateway ''2026-01-01T00:00:00.000Z''
      [(''topic'', JStr ''Photosynthesis''), (''grade'', JStr ''grade6'')] = (InvalidContentType, [])"
    using absent_contentType_rejected [of ?gateway "''2026-01-01T00:00:00.000Z''"] by blast
  then show ?thesis
    by (simp add: InvalidContentType_def bad_request_def)
qed

section \<open>The composer and the grade label\<close>

lemma prompt_shape:
  \<open>get (contentPrompts t l c) ''lesson-summary'' = JStr
     ((''Create a concise lesson summary for "'' @ t @ ''" '' @ l) @
      (''. '' @ c @ ''. '') @
      ''Focus on key competencies students should develop. Include 2-3 main learning outcomes and key concepts. Keep it teacher-friendly.'')\<close>
  \<open>get (contentPrompts t l c) ''quiz'' = JStr
     ((''Generate 5 multiple-choice questions for "'' @ t @ ''" '' @ l) @
      (''. '' @ c @ ''. '') @
      ''Format: Q1) Question? A) Option B) Option C) Option D) Correct Answer: X. Ensure questions test competency-based learning, not just rote memorization.'')\<close>
  \<open>get (contentPrompts t l c) ''activity'' = JStr
     ((''Design a practical, real-life activity for students to learn "'' @ t @ ''" '' @ l) @
      (''. '' @ c @ ''. '') @
      ''Include: Objective, Materials needed, Step-by-step instructions, Expected outcomes, and Connection to real-world application. Make it engaging and hands-on.'')\<close>
  \<open>get (contentPrompts t l c) ''assessment'' = JStr
     ((''Create a competency-based assessment for "'' @ t @ ''" '' @ l) @
      (''. '' @ c @ ''. '') @
      ''Include rubric, success criteria, and how to measure student competency development.'')\<close>
  \<open>get (contentPrompts t l c) ''explanation'' = JStr
     ((''Explain "'' @ t @ ''" '' @ l @ '' in simple, relatable terms'') @
      (''. '' @ c @ ''. '') @
      ''Use local Kenyan examples, case studies, or real-life scenarios to make content relevant and engaging to students.'')\<close>
  by (simp_all add: get_contentPrompts)

lemma prompt_contains_context:
  assumes "c \<in> set contentTypes"
  shows "\<exists>p. get (contentPrompts t l ctx) c = JStr p \<and> sublist (''. '' @ ctx @ ''. '') p"
proof -
  have "\<exists>p. v = JStr p \<and> sublist x p" if "v = JStr (ps @ x @ ss)" for v x and ps ss :: string
    using that by blast
  with assms show ?thesis
    by (simp only: contentTypes_def set_simps insert_iff empty_iff)
      (elim disjE; simp only: prompt_shape)
qed

lemma index_ToString: "ToString v = Inr k \<Longrightarrow> index obj v = Inr (get obj k)"
  by (simp add: index_def)

lemma cbcContext_value:
  assumes "ToString gradeLabel = Inr label"
      and "\<not> truthy subject \<or> ToString subject = Inr s"
  shows "cbcContext gradeLabel subject =
           Inr (''This is for the Kenyan CBC curriculum at '' @ label @
                (if truthy subject then '' in '' @ s else []))"
  using assms by (auto simp: cbcContext_def)

lemma composer_value:
  assumes "ToString grade = Inr g" and "ToString topic = Inr t"
      and "cbcContext (get grades g) subject = Inr ctx"
  shows "generateCBCPrompt topic grade subject (JStr c) language =
           Inr (get (contentPrompts t (languageContext_in language) ctx) c)"
  using assms by (simp add: generateCBCPrompt_def index_ToString index_JStr)

lemma known_grade_label:
  assumes "g \<in> set (Object_keys grades)"
  shows "\<exists>label. get grades g = JStr label"
  using assms by (simp add: grade_codes) (elim disjE; simp add: get_grades)

lemma composer_clause:
  assumes "ToString topic = Inr t" and "ToString grade = Inr g"
      and "\<not> truthy subject \<or> ToString subject = Inr s"
      and "c \<in> set contentTypes"
  shows "\<exists>clause p.
           generateCBCPrompt topic grade subject (JStr c) language = Inr (JStr p) \<and>
           cbcContext (get grades g) subject = Inr clause \<and>
           sublist (''. '' @ clause @ ''. '') p"
proof -
  obtain rendered where "ToString (get grades g) = Inr rendered"
    using ToString_label by blast
  then obtain clause where ctx: "cbcContext (get grades g) subject = Inr clause"
    using cbcContext_value [OF _ assms(3)] by blast
  obtain p where p: "get (contentPrompts t (languageContext_in language) clause) c = JStr p"
      "sublist (''. '' @ clause @ ''. '') p"
    using prompt_contains_context [OF assms(4)] by blast
  have "generateCBCPrompt topic grade subject (JStr c) language = Inr (JStr p)"
    using composer_value [OF assms(2) assms(1) ctx] p(1) by simp
  with ctx p(2) show ?thesis
    by blast
qed

text \<open>
  Claim C4, as the code has it. The composer has no check of the grade label and no
  UnknownGradeLabel failure. Whenever its inputs can be rendered (the topic, the
  grade as a property key, a truthy subject) and the content type is one of the five,
  it returns a prompt string that contains the context clause. For a grade code with
  an entry in the grade table the clause names that entry's label; for a code with no
  entry, and none inherited from \<^verbatim>\<open>Object.prototype\<close>, the clause carries the text
  \<^verbatim>\<open>undefined\<close> in the label's place.
\<close>

theorem composer_resolves_label:
  assumes "ToString topic = Inr t" and "ToString grade = Inr g"
      and "\<not> truthy subject \<or> ToString subject = Inr s"
      and "c \<in> set contentTypes"
  shows "\<exists>clause p.
           generateCBCPrompt topic grade subject (JStr c) language = Inr (JStr p) \<and>
           cbcContext (get grades g) subject = Inr clause \<and>
           sublist (''. '' @ clause @ ''. '') p \<and>
           (\<forall>label. map_of grades g = Some (JStr label) \<longrightarrow>
              prefix (''This is for the Kenyan CBC curriculum at '' @ label) clause) \<and>
           (map_of grades g = None \<and> map_of Object_prototype g = None \<longrightarrow>
              prefix ''This is for the Kenyan CBC curriculum at undefined'' clause)"
proof -
  obtain rendered where rendered: "ToString (get grades g) = Inr rendered"
    using ToString_label by blast
  define clause where "clause = ''This is for the Kenyan CBC curriculum at '' @ rendered @
    (if truthy subject then '' in '' @ s else [])"
  have ctx: "cbcContext (get grades g) subject = Inr clause"
    unfolding clause_def using rendered assms(3) by (rule cbcContext_value)
  obtain p where p: "get (contentPrompts t (languageContext_in language) clause) c = JStr p"
      "sublist (''. '' @ clause @ ''. '') p"
    using prompt_contains_context [OF assms(4)] by blast
  have run: "generateCBCPrompt topic grade subject (JStr c) language = Inr (JStr p)"
    using composer_value [OF assms(2) assms(1) ctx] p(1) by simp
  have known: "prefix (''This is for the Kenyan CBC curriculum at '' @ label) clause"
    if "map_of grades g = Some (JStr label)" for label
  proof -
    from that have "get grades g = JStr label"
      by (simp add: get_def)
    with rendered have "rendered = label"
      by simp
    then show ?thesis
      by (simp add: clause_def)
  qed
  have unknown: "prefix ''This is for the Kenyan CBC curriculum at undefined'' clause"
    if "map_of grades g = None \<and> map_of Object_prototype g = None"
  proof -
    from that have "get grades g = JUndefined"
      by (simp add: get_def)
    with rendered have "rendered = ''undefined''"
      by simp
    then show ?thesis
      by (simp add: clause_def)
  qed
  from run ctx p(2) known unknown show ?thesis
    by blast
qed

theorem composer_resolves_label_witness:
  "(\<exists>clause p.
      generateCBCPrompt (JStr ''Photosynthesis'') (JStr ''grade6'') JUndefined (JStr ''quiz'')
        (JStr ''English'') = Inr (JStr p) \<and>
      sublist (''. '' @ clause @ ''. '') p \<and>
      prefix ''This is for the Kenyan CBC curriculum at Grade 6'' clause) \<and>
   (\<exists>clause p.
      generateCBCPrompt (JStr ''Photosynthesis'') (JStr ''grade13'') (JStr ''Science'')
        (JStr ''quiz'') (JStr ''English'') = Inr (JStr p) \<and>
      sublist (''. '' @ clause @ ''. '') p \<and>
      prefix ''This is for the Kenyan CBC curriculum at undefined'' clause)"
proof -
  have quiz: "''quiz'' \<in> set contentTypes"
    by (simp add: contentTypes_def)
  have known: "map_of grades ''grade6'' = Some (JStr ''Grade 6'')"
    by (simp add: grades_def)
  have unknown: "map_of grades ''grade13'' = None \<and> map_of Object_prototype ''grade13'' = None"
    by (simp add: grades_def Object_prototype_def)
  have absent: "\<not> truthy JUndefined \<or> ToString JUndefined = Inr ''undefined''"
    by simp
  have given: "\<not> truthy (JStr ''Science'') \<or> ToString (JStr ''Science'') = Inr ''Science''"
    by simp
  have topic: "ToString (JStr ''Photosynthesis'') = Inr ''Photosynthesis''"
    by simp
  have first: "\<exists>clause p.
      generateCBCPrompt (JStr ''Photosynthesis'') (JStr ''grade6'') JUndefined (JStr ''quiz'')
        (JStr ''English'') = Inr (JStr p) \<and>
      sublist (''. '' @ clause @ ''. '') p \<and>
      prefix ''This is for the Kenyan CBC curriculum at Grade 6'' clause"
    using composer_resolves_label [OF topic _ absent quiz, of "JStr ''grade6''" "''grade6''"
        "JStr ''English''"] known
    by fastforce
  have second: "\<exists>clause p.
      generateCBCPrompt (JStr ''Photosynthesis'') (JStr ''grade13'') (JStr ''Science'')
        (JStr ''quiz'') (JStr ''English'') = Inr (JStr p) \<and>
      sublist (''. '' @ clause @ ''. '') p \<and>
      prefix ''This is for the Kenyan CBC curriculum at undefined'' clause"
    using composer_resolves_label [OF topic _ given quiz, of "JStr ''grade13''" "''grade13''"
        "JStr ''English''"] unknown
    by fastforce
  from first second show ?thesis
    by blast
qed

text \<open>
  The grade code \<^verbatim>\<open>grade13\<close> has no entry, and the composer returns a prompt for it.
\<close>

theorem unknown_grade_label_counterexample:
  \<open>map_of grades ''grade13'' = None \<and>
   generateCBCPrompt (JStr ''Photosynthesis'') (JStr ''grade13'') JUndefined (JStr ''quiz'')
     (JStr ''English'') = Inr (JStr ''Generate 5 multiple-choice questions for "Photosynthesis" in English. This is for the Kenyan CBC curriculum at undefined. Format: Q1) Question? A) Option B) Option C) Option D) Correct Answer: X. Ensure questions test competency-based learning, not just rote memorization.'')\<close>
proof -
  have "get grades ''grade13'' = JUndefined"
    by (simp add: get_def grades_def Object_prototype_def)
  then show ?thesis
    by (simp add: generateCBCPrompt_def cbcContext_def languageContext_in_def
        index_JStr get_contentPrompts) (simp add: grades_def)
qed

section \<open>The subject in the context clause\<close>

lemma validated_prompt:
  assumes "validateGenerateRequest req_body = None"
  shows "\<exists>s. generateCBCPrompt (get req_body ''topic'') (get req_body ''grade'')
              (get req_body ''subject'') (get req_body ''contentType'')
              (get req_body ''language'') = Inr (JStr s) \<and>
            snd (post_generate generateContent now req_body) = [JStr s]"
proof -
  from assms obtain t g c l where
      fields: "get req_body ''topic'' = JStr t" "get req_body ''grade'' = JStr g"
        "get req_body ''contentType'' = JStr c" "get req_body ''language'' = JStr l"
      and c: "c \<in> set contentTypes"
      and subject: "\<not> truthy (get req_body ''subject'') \<or> typeof (get req_body ''subject'') = ''string''"
    by (auto simp: validateGenerateRequest_None_iff)
  obtain s where s: "generateCBCPrompt (JStr t) (JStr g) (get req_body ''subject'') (JStr c)
      (JStr l) = Inr (JStr s)"
    using composer_total [OF subject c] by blast
  obtain label where label: "index grades (JStr g) = Inr label"
    by (simp add: index_JStr)
  have "snd (post_generate generateContent now req_body) = [JStr s]"
    by (simp add: post_generate_def assms generate_handler_def Let_def fields default_to_def s
        label split: sum.splits)
  with s fields show ?thesis
    by simp
qed

text \<open>
  Claim C5, as the code has it. For a validated request the grade has a label, the
  route sends one prompt, and the prompt contains the context clause between two
  full stops. When the subject is omitted (absent, or any falsy value such as the
  empty string) the clause is \<^verbatim>\<open>This is for the Kenyan CBC curriculum at\<close> followed by
  the label and nothing else; when the subject is a non-empty string the clause
  continues with \<^verbatim>\<open> in \<close> and the subject as it was sent.
\<close>

theorem subject_clause:
  assumes "validateGenerateRequest req_body = None"
  shows "\<exists>g label clause p.
           get req_body ''grade'' = JStr g \<and> get grades g = JStr label \<and>
           cbcContext (get grades g) (get req_body ''subject'') = Inr clause \<and>
           snd (post_generate generateContent now req_body) = [JStr p] \<and>
           sublist (''. '' @ clause @ ''. '') p \<and>
           (\<not> truthy (get req_body ''subject'') \<longrightarrow>
              clause = ''This is for the Kenyan CBC curriculum at '' @ label) \<and>
           (\<forall>s. get req_body ''subject'' = JStr s \<and> s \<noteq> [] \<longrightarrow>
              clause = ''This is for the Kenyan CBC curriculum at '' @ label @ '' in '' @ s)"
proof -
  let ?subject = "get req_body ''subject''"
  from assms obtain t g c l where
      fields: "get req_body ''topic'' = JStr t" "get req_body ''grade'' = JStr g"
        "get req_body ''contentType'' = JStr c" "get req_body ''language'' = JStr l"
      and g: "g \<in> set (Object_keys grades)" and c: "c \<in> set contentTypes"
      and subject: "truthy ?subject \<longrightarrow> typeof ?subject = ''string''"
    by (auto simp: validateGenerateRequest_None_iff)
  obtain label where label: "get grades g = JStr label"
    using known_grade_label [OF g] by blast
  have "\<exists>s. \<not> truthy ?subject \<or> ToString ?subject = Inr s"
  proof (cases "truthy ?subject")
    case True
    with subject obtain x where "?subject = JStr x"
      by (auto simp: typeof_string)
    then show ?thesis
      by simp
  next
    case False
    then show ?thesis
      by simp
  qed
  then obtain s where s: "\<not> truthy ?subject \<or> ToString ?subject = Inr s"
    by blast
  have "ToString (JStr t) = Inr t" "ToString (JStr g) = Inr g"
    by simp_all
  from composer_clause [OF this s c, of "JStr l"]
  obtain clause p where
      run: "generateCBCPrompt (JStr t) (JStr g) ?subject (JStr c) (JStr l) = Inr (JStr p)"
      and clause: "cbcContext (get grades g) ?subject = Inr clause"
      and inside: "sublist (''. '' @ clause @ ''. '') p"
    by blast
  obtain p' where sent: "generateCBCPrompt (get req_body ''topic'') (get req_body ''grade'')
        ?subject (get req_body ''contentType'') (get req_body ''language'') = Inr (JStr p')"
      "snd (post_generate generateContent now req_body) = [JStr p']"
    using validated_prompt [OF assms] by blast
  with run fields have prompt: "snd (post_generate generateContent now req_body) = [JStr p]"
    by simp
  have omitted: "clause = ''This is for the Kenyan CBC curriculum at '' @ label"
    if "\<not> truthy ?subject"
    using that clause label by (simp add: cbcContext_def)
  have present: "clause = ''This is for the Kenyan CBC curriculum at '' @ label @ '' in '' @ x"
    if "?subject = JStr x \<and> x \<noteq> []" for x
    using that clause label by (simp add: cbcContext_def)
  from fields(2) label clause prompt inside omitted present show ?thesis
    by blast
qed

theorem subject_clause_witness:
  "(\<exists>p. snd (post_generate
             (\<lambda>p. Inr \<lparr>response_text = ''Q1) ...'', inputTokenCount = JUndefined\<rparr>)
             ''2026-01-01T00:00:00.000Z''
             [(''topic'', JStr ''Photosynthesis''), (''grade'', JStr ''grade6''),
              (''contentType'', JStr ''quiz''), (''language'', JStr ''English'')]) = [JStr p] \<and>
         sublist ''. This is for the Kenyan CBC curriculum at Grade 6. '' p) \<and>
   (\<exists>p. snd (post_generate
             (\<lambda>p. Inr \<lparr>response_text = ''Q1) ...'', inputTokenCount = JUndefined\<rparr>)
             ''2026-01-01T00:00:00.000Z''
             [(''topic'', JStr ''Photosynthesis''), (''grade'', JStr ''grade6''),
              (''subject'', JStr ''Science''), (''contentType'', JStr ''quiz''),
              (''language'', JStr ''English'')]) = [JStr p] \<and>
         sublist ''. This is for the Kenyan CBC curriculum at Grade 6 in Science. '' p)"
proof -
  let ?gateway = "\<lambda>p::jsval. Inr \<lparr>response_text = ''Q1) ...'', inputTokenCount = JUndefined\<rparr>
    :: exn + completion"
  let ?now = "''2026-01-01T00:00:00.000Z''"
  let ?without = "[(''topic'', JStr ''Photosynthesis''), (''grade'', JStr ''grade6''),
                   (''contentType'', JStr ''quiz''), (''language'', JStr ''English'')]"
  let ?with = "[(''topic'', JStr ''Photosynthesis''), (''grade'', JStr ''grade6''),
                (''subject'', JStr ''Science''), (''contentType'', JStr ''quiz''),
                (''language'', JStr ''English'')]"
  have filled: "trim ''Photosynthesis'' \<noteq> []"
    by (simp add: trim_def trimStart_def trimEnd_def WhiteSpace_def)
  have omitted: "get ?without ''grade'' = JStr ''grade6''" "get ?without ''subject'' = JUndefined"
    by (simp_all add: get_def Object_prototype_def)
  have valid_without: "validateGenerateRequest ?without = None"
    using filled
    by (simp add: validateGenerateRequest_def Let_def get_def Object_prototype_def
        Array_includes_def grade_codes contentTypes_def languages_def)
  have given: "get ?with ''grade'' = JStr ''grade6''" "get ?with ''subject'' = JStr ''Science''"
    by (simp_all add: get_def Object_prototype_def)
  have valid_with: "validateGenerateRequest ?with = None"
    using filled
    by (simp add: validateGenerateRequest_def Let_def get_def Object_prototype_def
        Array_includes_def grade_codes contentTypes_def languages_def)
  have first: "\<exists>p. snd (post_generate ?gateway ?now ?without) = [JStr p] \<and>
      sublist ''. This is for the Kenyan CBC curriculum at Grade 6. '' p"
    using subject_clause [OF valid_without, of ?gateway ?now]
    by (auto simp: omitted get_grades)
  have second: "\<exists>p. snd (post_generate ?gateway ?now ?with) = [JStr p] \<and>
      sublist ''. This is for the Kenyan CBC curriculum at Grade 6 in Science. '' p"
    using subject_clause [OF valid_with, of ?gateway ?now]
    by (auto simp: given get_grades)
  from first second show ?thesis
    by blast
qed

text \<open>
  A subject that is present and empty passes the validator, and the prompt has no
  subject phrase after the label.
\<close>

theorem empty_subject_counterexample:
  \<open>get [(''topic'', JStr ''Photosynthesis''), (''grade'', JStr ''grade6''), (''subject'', JStr ''''),
        (''contentType'', JStr ''quiz''), (''language'', JStr ''English'')] ''subject'' = JStr '''' \<and>
   validateGenerateRequest
     [(''topic'', JStr ''Photosynthesis''), (''grade'', JStr ''grade6''), (''subject'', JStr ''''),
      (''contentType'', JStr ''quiz''), (''language'', JStr ''English'')] = None \<and>
   cbcContext (JStr ''Grade 6'') (JStr '''') = Inr ''This is for the Kenyan CBC curriculum at Grade 6'' \<and>
   snd (post_generate (\<lambda>p. Inr \<lparr>response_text = ''Q1) ...'', inputTokenCount = JUndefined\<rparr>)
          ''2026-01-01T00:00:00.000Z''
          [(''topic'', JStr ''Photosynthesis''), (''grade'', JStr ''grade6''), (''subject'', JStr ''''),
           (''contentType'', JStr ''quiz''), (''language'', JStr ''English'')])
     = [JStr ''Generate 5 multiple-choice questions for "Photosynthesis" in English. This is for the Kenyan CBC curriculum at Grade 6. Format: Q1) Question? A) Option B) Option C) Option D) Correct Answer: X. Ensure questions test competency-based learning, not just rote memorization.''] \<and>
   \<not> sublist ''at Grade 6 in '' ''Generate 5 multiple-choice questions for "Photosynthesis" in English. This is for the Kenyan CBC curriculum at Grade 6. Format: Q1) Question? A) Option B) Option C) Option D) Correct Answer: X. Ensure questions test competency-based learning, not just rote memorization.''\<close>
proof -
  let ?body = "[(''topic'', JStr ''Photosynthesis''), (''grade'', JStr ''grade6''),
                (''subject'', JStr ''''), (''contentType'', JStr ''quiz''),
                (''language'', JStr ''English'')]"
  have fields: "get ?body ''topic'' = JStr ''Photosynthesis''"
    "get ?body ''grade'' = JStr ''grade6''" "get ?body ''subject'' = JStr ''''"
    "get ?body ''contentType'' = JStr ''quiz''" "get ?body ''language'' = JStr ''English''"
    by (simp_all add: get_def Object_prototype_def)
  have filled: "trim ''Photosynthesis'' \<noteq> []"
    by (simp add: trim_def trimStart_def trimEnd_def WhiteSpace_def)
  have valid: "validateGenerateRequest ?body = None"
    using filled
    by (simp add: validateGenerateRequest_def Let_def fields Array_includes_def grade_codes
        contentTypes_def languages_def)
  have clause: "cbcContext (JStr ''Grade 6'') (JStr '''') =
      Inr ''This is for the Kenyan CBC curriculum at Grade 6''"
    by (simp add: cbcContext_def)
  have prompt: \<open>generateCBCPrompt (JStr ''Photosynthesis'') (JStr ''grade6'') (JStr '''')
      (JStr ''quiz'') (JStr ''English'') = Inr (JStr ''Generate 5 multiple-choice questions for "Photosynthesis" in English. This is for the Kenyan CBC curriculum at Grade 6. Format: Q1) Question? A) Option B) Option C) Option D) Correct Answer: X. Ensure questions test competency-based learning, not just rote memorization.'')\<close>
    by (simp add: generateCBCPrompt_def get_grades clause languageContext_in_def
        index_JStr get_contentPrompts)
  have sent: \<open>snd (post_generate
      (\<lambda>p. Inr \<lparr>response_text = ''Q1) ...'', inputTokenCount = JUndefined\<rparr>)
      ''2026-01-01T00:00:00.000Z'' ?body) = [JStr ''Generate 5 multiple-choice questions for "Photosynthesis" in English. This is for the Kenyan CBC curriculum at Grade 6. Format: Q1) Question? A) Option B) Option C) Option D) Correct Answer: X. Ensure questions test competency-based learning, not just rote memorization.'']\<close>
    by (simp add: post_generate_def valid generate_handler_def Let_def fields default_to_def
        prompt index_JStr get_grades)
  have nowhere: \<open>\<not> sublist ''at Grade 6 in '' ''Generate 5 multiple-choice questions for "Photosynthesis" in English. This is for the Kenyan CBC curriculum at Grade 6. Format: Q1) Question? A) Option B) Option C) Option D) Correct Answer: X. Ensure questions test competency-based learning, not just rote memorization.''\<close>
    by (simp add: sublist_code)
  from fields(3) valid clause sent nowhere show ?thesis
    by simp
qed

section \<open>The topic check of the single-purpose variant\<close>

lemma call_trim_string: "call_trim (JStr s) = Inr (trim s)"
  by (simp add: call_trim_def)

lemma call_trim_throws:
  assumes "typeof v \<noteq> ''string''"
  shows "\<exists>e. call_trim v = Inl e"
  using assms by (cases v) (simp_all add: call_trim_def)

lemma gemini_non_string:
  assumes "truthy (get req_body ''topic'')" and "typeof (get req_body ''topic'') \<noteq> ''string''"
  shows "gemini_handler generateContent req_body =
           (Response 500 (JObj [(''error'', JStr ''Failed to generate content'')]), [])"
proof -
  obtain e where "call_trim (get req_body ''topic'') = Inl e"
    using call_trim_throws [OF assms(2)] by blast
  with assms(1) show ?thesis
    by (simp add: gemini_handler_def Let_def gemini_error_def)
qed

lemma gemini_status:
  "status (fst (gemini_handler generateContent req_body)) = 400 \<longleftrightarrow>
     \<not> truthy (get req_body ''topic'') \<or> (\<exists>s. get req_body ''topic'' = JStr s \<and> trim s = [])"
proof (cases "get req_body ''topic''")
  case (JStr s)
  then show ?thesis
    by (auto simp: gemini_handler_def Let_def call_trim_string split: sum.splits)
next
  case JUndefined
  then show ?thesis
    by (simp add: gemini_handler_def)
next
  case JNull
  then show ?thesis
    by (simp add: gemini_handler_def)
next
  case (JBool b)
  then show ?thesis
    using gemini_non_string [of req_body generateContent]
    by (cases b) (simp_all add: gemini_handler_def)
next
  case (JNum n)
  then show ?thesis
    using gemini_non_string [of req_body generateContent]
    by (cases "zero_or_NaN n") (simp_all add: gemini_handler_def)
next
  case (JArr xs)
  then show ?thesis
    using gemini_non_string [of req_body generateContent] by simp
next
  case (JObj kvs)
  then show ?thesis
    using gemini_non_string [of req_body generateContent] by simp
next
  case (JFun f)
  then show ?thesis
    using gemini_non_string [of req_body generateContent] by simp
qed

lemma gemini_bad_request:
  assumes "status (fst (gemini_handler generateContent req_body)) = 400"
  shows "gemini_handler generateContent req_body =
           (Response 400 (JObj [(''error'', JStr ''Please provide a topic.'')]), [])"
  using assms
  by (auto simp: gemini_handler_def Let_def gemini_error_def split: if_splits sum.splits)

text \<open>
  Claim C10. In \<^verbatim>\<open>POST /api/gemini\<close>, a topic that is truthy and not a string makes
  the call of \<^verbatim>\<open>trim\<close> throw; the handler catches it and answers 500 with the error
  \<^verbatim>\<open>Failed to generate content\<close>, without calling the gateway. The answer 400 with
  the error \<^verbatim>\<open>Please provide a topic.\<close> is given exactly when the topic is absent,
  falsy, or a string that trimming leaves empty; no other request gets status 400.
\<close>

theorem gemini_topic_check:
  "(truthy (get req_body ''topic'') \<and> typeof (get req_body ''topic'') \<noteq> ''string'' \<longrightarrow>
      gemini_handler generateContent req_body =
        (Response 500 (JObj [(''error'', JStr ''Failed to generate content'')]), [])) \<and>
   (gemini_handler generateContent req_body =
        (Response 400 (JObj [(''error'', JStr ''Please provide a topic.'')]), []) \<longleftrightarrow>
      get req_body ''topic'' = JUndefined \<or> \<not> truthy (get req_body ''topic'') \<or>
      (\<exists>s. get req_body ''topic'' = JStr s \<and> trim s = [])) \<and>
   (status (fst (gemini_handler generateContent req_body)) = 400 \<longleftrightarrow>
      get req_body ''topic'' = JUndefined \<or> \<not> truthy (get req_body ''topic'') \<or>
      (\<exists>s. get req_body ''topic'' = JStr s \<and> trim s = []))"
proof (intro conjI impI)
  assume "truthy (get req_body ''topic'') \<and> typeof (get req_body ''topic'') \<noteq> ''string''"
  then show "gemini_handler generateContent req_body =
      (Response 500 (JObj [(''error'', JStr ''Failed to generate content'')]), [])"
    using gemini_non_string by blast
next
  have absent: "get req_body ''topic'' = JUndefined \<Longrightarrow> \<not> truthy (get req_body ''topic'')"
    by simp
  show "status (fst (gemini_handler generateContent req_body)) = 400 \<longleftrightarrow>
      get req_body ''topic'' = JUndefined \<or> \<not> truthy (get req_body ''topic'') \<or>
      (\<exists>s. get req_body ''topic'' = JStr s \<and> trim s = [])"
    using gemini_status [of generateContent req_body] absent by blast
  then show "gemini_handler generateContent req_body =
        (Response 400 (JObj [(''error'', JStr ''Please provide a topic.'')]), []) \<longleftrightarrow>
      get req_body ''topic'' = JUndefined \<or> \<not> truthy (get req_body ''topic'') \<or>
      (\<exists>s. get req_body ''topic'' = JStr s \<and> trim s = [])"
    using gemini_bad_request [of generateContent req_body] by auto
qed

theorem gemini_topic_check_witness:
  "gemini_handler (\<lambda>p. Inr \<lparr>response_text = ''text'', inputTokenCount = JUndefined\<rparr>)
     [(''topic'', JNum (Number False ''42''))]
     = (Response 500 (JObj [(''error'', JStr ''Failed to generate content'')]), []) \<and>
   gemini_handler (\<lambda>p. Inr \<lparr>response_text = ''text'', inputTokenCount = JUndefined\<rparr>) []
     = (Response 400 (JObj [(''error'', JStr ''Please provide a topic.'')]), []) \<and>
   gemini_handler (\<lambda>p. Inr \<lparr>response_text = ''text'', inputTokenCount = JUndefined\<rparr>)
     [(''topic'', JStr ''  '')]
     = (Response 400 (JObj [(''error'', JStr ''Please provide a topic.'')]), [])"
proof -
  let ?gateway = "\<lambda>p::jsval. Inr \<lparr>response_text = ''text'', inputTokenCount = JUndefined\<rparr>
    :: exn + completion"
  have number: "truthy (get [(''topic'', JNum (Number False ''42''))] ''topic'') \<and>
      typeof (get [(''topic'', JNum (Number False ''42''))] ''topic'') \<noteq> ''string''"
    by (simp add: get_def)
  have absent: "get [] ''topic'' = JUndefined"
    by (simp add: get_def Object_prototype_def)
  have blank: "\<exists>s. get [(''topic'', JStr ''  '')] ''topic'' = JStr s \<and> trim s = []"
    by (simp add: get_def trim_def trimStart_def trimEnd_def WhiteSpace_def)
  show ?thesis
    using gemini_topic_check [of "[(''topic'', JNum (Number False ''42''))]" ?gateway] number
      gemini_topic_check [of "[]" ?gateway] absent
      gemini_topic_check [of "[(''topic'', JStr ''  '')]" ?gateway] blank
    by blast
qed

section \<open>The other endpoints do not validate the grade\<close>

lemma get_unknown:
  assumes "map_of obj k = None" and "map_of Object_prototype k = None"
  shows "get obj k = JUndefined"
  using assms by (simp add: get_def)

lemma languageContext_default [simp]:
  "languageContext_in (default_to (JStr ''English'') v) = languageContext_in v"
  by (simp add: default_to_def languageContext_in_def)

lemma status_failure [simp]: "status (failure msg e) = 500"
  by (simp add: failure_def)

lemma teacher_materials_not_400:
  assumes "truthy (get req_body ''topic'')" and "truthy (get req_body ''grade'')"
  shows "status (fst (teacher_materials_handler generateContent req_body)) \<noteq> 400"
  using assms by (simp add: teacher_materials_handler_def Let_def split: sum.splits)

lemma clarify_not_400:
  assumes "truthy (get req_body ''previousContent'')" and "truthy (get req_body ''question'')"
      and "truthy (get req_body ''grade'')"
  shows "status (fst (clarify_handler generateContent req_body)) \<noteq> 400"
  using assms by (simp add: clarify_handler_def Let_def split: sum.splits)

lemma learning_path_not_400:
  assumes "truthy (get req_body ''topic'')" and "truthy (get req_body ''startGrade'')"
      and "truthy (get req_body ''endGrade'')"
  shows "status (fst (learning_path_handler generateContent req_body)) \<noteq> 400"
  using assms by (simp add: learning_path_handler_def Let_def split: sum.splits)

lemma teacher_materials_unknown:
  assumes "truthy (get req_body ''topic'')" and "truthy (get req_body ''grade'')"
      and "ToString (get req_body ''topic'') = Inr t"
      and "ToString (get req_body ''grade'') = Inr k"
      and "map_of grades k = None" and "map_of Object_prototype k = None"
  shows \<open>snd (teacher_materials_handler generateContent req_body) =
           [JStr (''Create comprehensive teacher materials for "'' @ t @ ''" at undefined '' @
                  languageContext_in (get req_body ''language'') @
                  ''. Include: 1) Learning objectives aligned with CBC competencies, 2) Lesson outline (30-45 min), 3) Differentiation strategies, 4) Common misconceptions and how to address them, 5) Home support activities. Make it practical and classroom-ready.'')]\<close>
proof -
  have "index grades (get req_body ''grade'') = Inr JUndefined"
    using assms(4-6) by (simp add: index_ToString get_unknown)
  with assms(1-3) show ?thesis
    by (simp add: teacher_materials_handler_def Let_def split: sum.splits)
qed

lemma clarify_unknown:
  assumes "truthy (get req_body ''previousContent'')" and "truthy (get req_body ''question'')"
      and "truthy (get req_body ''grade'')"
      and "ToString (get req_body ''previousContent'') = Inr content"
      and "ToString (get req_body ''question'') = Inr q"
      and "ToString (get req_body ''grade'') = Inr k"
      and "map_of grades k = None" and "map_of Object_prototype k = None"
  shows \<open>snd (clarify_handler generateContent req_body) =
           [JStr (''Based on this CBC content for undefined: "'' @ content @
                  ''", answer this follow-up question: "'' @ q @ ''" in '' @
                  (if get req_body ''language'' = JStr ''Kiswahili'' then ''Kiswahili''
                   else ''English'') @
                  ''. Be clear, age-appropriate, and competency-focused.'')]\<close>
proof -
  have "index grades (get req_body ''grade'') = Inr JUndefined"
    using assms(6-8) by (simp add: index_ToString get_unknown)
  with assms(1-5) show ?thesis
    by (simp add: clarify_handler_def Let_def default_to_def split: sum.splits)
qed

lemma learning_path_prompt:
  assumes "truthy (get req_body ''topic'')" and "truthy (get req_body ''startGrade'')"
      and "truthy (get req_body ''endGrade'')"
      and "ToString (get req_body ''topic'') = Inr t"
      and "ToString (get req_body ''startGrade'') = Inr ks"
      and "ToString (get req_body ''endGrade'') = Inr ke"
      and "ToString (get grades ks) = Inr from_label"
      and "ToString (get grades ke) = Inr to_label"
  shows \<open>snd (learning_path_handler generateContent req_body) =
           [JStr (''Create a learning progression for "'' @ t @
                  ''" from '' @ from_label @ '' to '' @ to_label @ '' '' @
                  languageContext_in (get req_body ''language'') @
                  ''. For each level, outline: Competency to develop, Key concepts, Assessment criteria, and Connection to next level. Align with Kenyan CBC principles.'')]\<close>
proof -
  have "index grades (get req_body ''startGrade'') = Inr (get grades ks)"
    "index grades (get req_body ''endGrade'') = Inr (get grades ke)"
    using assms(5,6) by (simp_all add: index_ToString)
  with assms(1-4,7,8) show ?thesis
    by (simp add: learning_path_handler_def Let_def split: sum.splits)
qed

text \<open>
  Claim C9, as the code has it. A request to \<^verbatim>\<open>POST /api/teacher-materials\<close>,
  \<^verbatim>\<open>POST /api/clarify\<close> or \<^verbatim>\<open>POST /api/learning-path\<close> whose required fields are
  truthy is never answered with status 400. When, besides, the interpolated fields
  can be rendered and the grade (or the start or the end grade), taken as a property
  key, names neither a grade code nor a member that the grade table inherits from
  \<^verbatim>\<open>Object.prototype\<close>, the lookup yields undefined, the handler goes on to the
  gateway, and the prompt it sends carries the text \<^verbatim>\<open>undefined\<close> where the label
  belongs.
\<close>

theorem unknown_grade_not_validated:
  \<open>(truthy (get req_body ''topic'') \<and> truthy (get req_body ''grade'') \<longrightarrow>
      status (fst (teacher_materials_handler generateContent req_body)) \<noteq> 400) \<and>
   (truthy (get req_body ''previousContent'') \<and> truthy (get req_body ''question'') \<and>
    truthy (get req_body ''grade'') \<longrightarrow>
      status (fst (clarify_handler generateContent req_body)) \<noteq> 400) \<and>
   (truthy (get req_body ''topic'') \<and> truthy (get req_body ''startGrade'') \<and>
    truthy (get req_body ''endGrade'') \<longrightarrow>
      status (fst (learning_path_handler generateContent req_body)) \<noteq> 400) \<and>
   (truthy (get req_body ''topic'') \<and> truthy (get req_body ''grade'') \<and>
    ToString (get req_body ''topic'') = Inr t \<and> ToString (get req_body ''grade'') = Inr k \<and>
    map_of grades k = None \<and> map_of Object_prototype k = None \<longrightarrow>
      index grades (get req_body ''grade'') = Inr JUndefined \<and>
      snd (teacher_materials_handler generateContent req_body) =
        [JStr (''Create comprehensive teacher materials for "'' @ t @ ''" at undefined '' @
               languageContext_in (get req_body ''language'') @
               ''. Include: 1) Learning objectives aligned with CBC competencies, 2) Lesson outline (30-45 min), 3) Differentiation strategies, 4) Common misconceptions and how to address them, 5) Home support activities. Make it practical and classroom-ready.'')]) \<and>
   (truthy (get req_body ''previousContent'') \<and> truthy (get req_body ''question'') \<and>
    truthy (get req_body ''grade'') \<and>
    ToString (get req_body ''previousContent'') = Inr content \<and>
    ToString (get req_body ''question'') = Inr q \<and> ToString (get req_body ''grade'') = Inr k \<and>
    map_of grades k = None \<and> map_of Object_prototype k = None \<longrightarrow>
      index grades (get req_body ''grade'') = Inr JUndefined \<and>
      snd (clarify_handler generateContent req_body) =
        [JStr (''Based on this CBC content for undefined: "'' @ content @
               ''", answer this follow-up question: "'' @ q @ ''" in '' @
               (if get req_body ''language'' = JStr ''Kiswahili'' then ''Kiswahili''
                else ''English'') @
               ''. Be clear, age-appropriate, and competency-focused.'')]) \<and>
   (truthy (get req_body ''topic'') \<and> truthy (get req_body ''startGrade'') \<and>
    truthy (get req_body ''endGrade'') \<and> ToString (get req_body ''topic'') = Inr t \<and>
    ToString (get req_body ''startGrade'') = Inr ks \<and>
    ToString (get req_body ''endGrade'') = Inr ke \<and>
    ToString (get grades ks) = Inr from_label \<and>
    ToString (get grades ke) = Inr to_label \<longrightarrow>
      snd (learning_path_handler generateContent req_body) =
        [JStr (''Create a learning progression for "'' @ t @
               ''" from '' @ from_label @ '' to '' @ to_label @ '' '' @
               languageContext_in (get req_body ''language'') @
               ''. For each level, outline: Competency to develop, Key concepts, Assessment criteria, and Connection to next level. Align with Kenyan CBC principles.'')] \<and>
      (map_of grades ks = None \<and> map_of Object_prototype ks = None \<longrightarrow>
         index grades (get req_body ''startGrade'') = Inr JUndefined \<and>
         from_label = ''undefined'') \<and>
      (map_of grades ke = None \<and> map_of Object_prototype ke = None \<longrightarrow>
         index grades (get req_body ''endGrade'') = Inr JUndefined \<and>
         to_label = ''undefined''))\<close>
proof (intro conjI impI)
  assume "truthy (get req_body ''topic'') \<and> truthy (get req_body ''grade'')"
  then show "status (fst (teacher_materials_handler generateContent req_body)) \<noteq> 400"
    using teacher_materials_not_400 by blast
next
  assume "truthy (get req_body ''previousContent'') \<and> truthy (get req_body ''question'') \<and>
    truthy (get req_body ''grade'')"
  then show "status (fst (clarify_handler generateContent req_body)) \<noteq> 400"
    using clarify_not_400 by blast
next
  assume "truthy (get req_body ''topic'') \<and> truthy (get req_body ''startGrade'') \<and>
    truthy (get req_body ''endGrade'')"
  then show "status (fst (learning_path_handler generateContent req_body)) \<noteq> 400"
    using learning_path_not_400 by blast
next
  assume a: "truthy (get req_body ''topic'') \<and> truthy (get req_body ''grade'') \<and>
    ToString (get req_body ''topic'') = Inr t \<and> ToString (get req_body ''grade'') = Inr k \<and>
    map_of grades k = None \<and> map_of Object_prototype k = None"
  then show "index grades (get req_body ''grade'') = Inr JUndefined"
    by (simp add: index_ToString get_unknown)
  from a show \<open>snd (teacher_materials_handler generateContent req_body) =
        [JStr (''Create comprehensive teacher materials for "'' @ t @ ''" at undefined '' @
               languageContext_in (get req_body ''language'') @
               ''. Include: 1) Learning objectives aligned with CBC competencies, 2) Lesson outline (30-45 min), 3) Differentiation strategies, 4) Common misconceptions and how to address them, 5) Home support activities. Make it practical and classroom-ready.'')]\<close>
    using teacher_materials_unknown by blast
next
  assume a: "truthy (get req_body ''previousContent'') \<and> truthy (get req_body ''question'') \<and>
    truthy (get req_body ''grade'') \<and>
    ToString (get req_body ''previousContent'') = Inr content \<and>
    ToString (get req_body ''question'') = Inr q \<and> ToString (get req_body ''grade'') = Inr k \<and>
    map_of grades k = None \<and> map_of Object_prototype k = None"
  then show "index grades (get req_body ''grade'') = Inr JUndefined"
    by (simp add: index_ToString get_unknown)
  from a show \<open>snd (clarify_handler generateContent req_body) =
        [JStr (''Based on this CBC content for undefined: "'' @ content @
               ''", answer this follow-up question: "'' @ q @ ''" in '' @
               (if get req_body ''language'' = JStr ''Kiswahili'' then ''Kiswahili''
                else ''English'') @
               ''. Be clear, age-appropriate, and competency-focused.'')]\<close>
    using clarify_unknown by blast
next
  assume a: "truthy (get req_body ''topic'') \<and> truthy (get req_body ''startGrade'') \<and>
    truthy (get req_body ''endGrade'') \<and> ToString (get req_body ''topic'') = Inr t \<and>
    ToString (get req_body ''startGrade'') = Inr ks \<and>
    ToString (get req_body ''endGrade'') = Inr ke \<and>
    ToString (get grades ks) = Inr from_label \<and>
    ToString (get grades ke) = Inr to_label"
  then show \<open>snd (learning_path_handler generateContent req_body) =
        [JStr (''Create a learning progression for "'' @ t @
               ''" from '' @ from_label @ '' to '' @ to_label @ '' '' @
               languageContext_in (get req_body ''language'') @
               ''. For each level, outline: Competency to develop, Key concepts, Assessment criteria, and Connection to next level. Align with Kenyan CBC principles.'')]\<close>
    using learning_path_prompt by blast
  {
    assume "map_of grades ks = None \<and> map_of Object_prototype ks = None"
    then have "get grades ks = JUndefined"
      by (simp add: get_unknown)
    with a show "index grades (get req_body ''startGrade'') = Inr JUndefined"
      "from_label = ''undefined''"
      by (simp_all add: index_ToString)
  }
  {
    assume "map_of grades ke = None \<and> map_of Object_prototype ke = None"
    then have "get grades ke = JUndefined"
      by (simp add: get_unknown)
    with a show "index grades (get req_body ''endGrade'') = Inr JUndefined"
      "to_label = ''undefined''"
      by (simp_all add: index_ToString)
  }
qed

theorem unknown_grade_not_validated_witness:
  \<open>status (fst (teacher_materials_handler (\<lambda>p. Inr \<lparr>response_text = ''text'', inputTokenCount = JUndefined\<rparr>)
     [(''topic'', JStr ''Fractions''), (''grade'', JStr ''grade13'')])) \<noteq> 400 \<and>
   snd (teacher_materials_handler (\<lambda>p. Inr \<lparr>response_text = ''text'', inputTokenCount = JUndefined\<rparr>)
     [(''topic'', JStr ''Fractions''), (''grade'', JStr ''grade13'')]) = [JStr ''Create comprehensive teacher materials for "Fractions" at undefined in English. Include: 1) Learning objectives aligned with CBC competencies, 2) Lesson outline (30-45 min), 3) Differentiation strategies, 4) Common misconceptions and how to address them, 5) Home support activities. Make it practical and classroom-ready.''] \<and>
   status (fst (clarify_handler (\<lambda>p. Inr \<lparr>response_text = ''text'', inputTokenCount = JUndefined\<rparr>)
     [(''previousContent'', JStr ''Plants make food''), (''question'', JStr ''How?''),
      (''grade'', JNum (Number False ''7'')), (''language'', JStr ''Kiswahili'')])) \<noteq> 400 \<and>
   snd (clarify_handler (\<lambda>p. Inr \<lparr>response_text = ''text'', inputTokenCount = JUndefined\<rparr>)
     [(''previousContent'', JStr ''Plants make food''), (''question'', JStr ''How?''),
      (''grade'', JNum (Number False ''7'')), (''language'', JStr ''Kiswahili'')]) = [JStr ''Based on this CBC content for undefined: "Plants make food", answer this follow-up question: "How?" in Kiswahili. Be clear, age-appropriate, and competency-focused.''] \<and>
   status (fst (learning_path_handler (\<lambda>p. Inr \<lparr>response_text = ''text'', inputTokenCount = JUndefined\<rparr>)
     [(''topic'', JStr ''Fractions''), (''startGrade'', JStr ''form1''),
      (''endGrade'', JStr ''grade6'')])) \<noteq> 400 \<and>
   snd (learning_path_handler (\<lambda>p. Inr \<lparr>response_text = ''text'', inputTokenCount = JUndefined\<rparr>)
     [(''topic'', JStr ''Fractions''), (''startGrade'', JStr ''form1''),
      (''endGrade'', JStr ''grade6'')]) = [JStr ''Create a learning progression for "Fractions" from undefined to Grade 6 in English. For each level, outline: Competency to develop, Key concepts, Assessment criteria, and Connection to next level. Align with Kenyan CBC principles.'']\<close>
proof -
  let ?gateway = "\<lambda>p::jsval. Inr \<lparr>response_text = ''text'', inputTokenCount = JUndefined\<rparr>
    :: exn + completion"
  let ?teacher = "[(''topic'', JStr ''Fractions''), (''grade'', JStr ''grade13'')]"
  let ?clarify = "[(''previousContent'', JStr ''Plants make food''), (''question'', JStr ''How?''),
      (''grade'', JNum (Number False ''7'')), (''language'', JStr ''Kiswahili'')]"
  let ?path = "[(''topic'', JStr ''Fractions''), (''startGrade'', JStr ''form1''),
      (''endGrade'', JStr ''grade6'')]"
  have unknown: "map_of grades ''grade13'' = None" "map_of Object_prototype ''grade13'' = None"
    "map_of grades ''7'' = None" "map_of Object_prototype ''7'' = None"
    "map_of grades ''form1'' = None" "map_of Object_prototype ''form1'' = None"
    by (simp_all add: grades_def Object_prototype_def)
  have teacher: "get ?teacher ''topic'' = JStr ''Fractions''"
    "get ?teacher ''grade'' = JStr ''grade13''" "get ?teacher ''language'' = JUndefined"
    by (simp_all add: get_def Object_prototype_def)
  have clarify: "get ?clarify ''previousContent'' = JStr ''Plants make food''"
    "get ?clarify ''question'' = JStr ''How?''" "get ?clarify ''grade'' = JNum (Number False ''7'')"
    "get ?clarify ''language'' = JStr ''Kiswahili''"
    by (simp_all add: get_def Object_prototype_def)
  have path: "get ?path ''topic'' = JStr ''Fractions''"
    "get ?path ''startGrade'' = JStr ''form1''" "get ?path ''endGrade'' = JStr ''grade6''"
    "get ?path ''language'' = JUndefined"
    by (simp_all add: get_def Object_prototype_def)
  have first: \<open>status (fst (teacher_materials_handler ?gateway ?teacher)) \<noteq> 400 \<and>
      snd (teacher_materials_handler ?gateway ?teacher) = [JStr ''Create comprehensive teacher materials for "Fractions" at undefined in English. Include: 1) Learning objectives aligned with CBC competencies, 2) Lesson outline (30-45 min), 3) Differentiation strategies, 4) Common misconceptions and how to address them, 5) Home support activities. Make it practical and classroom-ready.'']\<close>
    using unknown_grade_not_validated [where req_body = ?teacher and generateContent = ?gateway
        and t = "''Fractions''" and k = "''grade13''"]
    by (simp add: teacher unknown languageContext_in_def)
  have second: \<open>status (fst (clarify_handler ?gateway ?clarify)) \<noteq> 400 \<and>
      snd (clarify_handler ?gateway ?clarify) = [JStr ''Based on this CBC content for undefined: "Plants make food", answer this follow-up question: "How?" in Kiswahili. Be clear, age-appropriate, and competency-focused.'']\<close>
    using unknown_grade_not_validated [where req_body = ?clarify and generateContent = ?gateway
        and content = "''Plants make food''" and q = "''How?''" and k = "''7''"]
    by (simp add: clarify unknown)
  have third: \<open>status (fst (learning_path_handler ?gateway ?path)) \<noteq> 400 \<and>
      snd (learning_path_handler ?gateway ?path) = [JStr ''Create a learning progression for "Fractions" from undefined to Grade 6 in English. For each level, outline: Competency to develop, Key concepts, Assessment criteria, and Connection to next level. Align with Kenyan CBC principles.'']\<close>
    using unknown_grade_not_validated [where req_body = ?path and generateContent = ?gateway
        and t = "''Fractions''" and ks = "''form1''" and ke = "''grade6''"
        and from_label = "''undefined''" and to_label = "''Grade 6''"]
    by (simp add: path unknown get_unknown get_grades languageContext_in_def)
  from first second third show ?thesis
    by blast
qed

text \<open>
  The grade \<^verbatim>\<open>toString\<close> is truthy and is no grade code, yet the lookup finds the
  function the table inherits, and the prompt carries its source text.
\<close>

theorem inherited_grade_key_counterexample:
  \<open>truthy (JStr ''Fractions'') \<and> truthy (JStr ''toString'') \<and>
   ''toString'' \<notin> set (Object_keys grades) \<and>
   index grades (JStr ''toString'') = Inr (JFun ''toString'') \<and>
   snd (teacher_materials_handler
          (\<lambda>p. Inr \<lparr>response_text = ''text'', inputTokenCount = JUndefined\<rparr>)
          [(''topic'', JStr ''Fractions''), (''grade'', JStr ''toString'')])
     = [JStr (''Create comprehensive teacher materials for "Fractions" at function toString() { [native code] } in English'' @
              ''. Include: 1) Learning objectives aligned with CBC competencies, 2) Lesson outline (30-45 min), 3) Differentiation strategies, 4) Common misconceptions and how to address them, 5) Home support activities. Make it practical and classroom-ready.'')]\<close>
proof -
  have label: "index grades (JStr ''toString'') = Inr (JFun ''toString'')"
    by (simp add: index_JStr get_def grades_def Object_prototype_def)
  have fields: "get [(''topic'', JStr ''Fractions''), (''grade'', JStr ''toString'')] ''topic''
      = JStr ''Fractions''"
    "get [(''topic'', JStr ''Fractions''), (''grade'', JStr ''toString'')] ''grade''
      = JStr ''toString''"
    "get [(''topic'', JStr ''Fractions''), (''grade'', JStr ''toString'')] ''language''
      = JUndefined"
    by (simp_all add: get_def Object_prototype_def)
  show ?thesis
    by (simp add: teacher_materials_handler_def Let_def fields label default_to_def
        languageContext_in_def grade_codes)
qed

end
